theory Spec2Isabelle
  imports Complex_Main "HOL-Library.AList" "HOL-Library.Multiset"
begin

section \<open>Common conventions\<close>

text \<open>
  Python floats are idealised as rationals (\<open>rat\<close>); Python's unbounded integers are
  \<open>int\<close>, and \<open>nat\<close> where the source only counts or indexes. A value of
  \<open>datetime.now().isoformat()\<close> is an opaque string supplied by a clock
  \<open>nat \<Rightarrow> string\<close>, whose k-th value is the k-th reading of the wall clock; an object
  that reads the clock carries the number of readings made so far. In the same way the
  values of \<open>random.random()\<close> come from a stream of rationals in the unit interval. A
  function that can raise returns a sum, with the exception on the left.
\<close>

datatype exn = Key_Error | Index_Error | Value_Error

text \<open>
  Appending to a bounded history: \<open>collections.deque(maxlen=n).append(x)\<close> drops
  from the left, and so does \<open>xs.append(x); xs = xs[-n:]\<close>.
\<close>

definition append_bounded :: "nat \<Rightarrow> 'a list \<Rightarrow> 'a \<Rightarrow> 'a list" where
  "append_bounded n xs x = (let ys = xs @ [x] in drop (length ys - n) ys)"

section \<open>framework/communication.py: the message router\<close>

datatype MessageType = REQUEST | RESPONSE | NOTIFICATION | BROADCAST | MSG_ERROR

datatype Priority = LOW | MEDIUM | HIGH | CRITICAL

record AgentMessage =
  message_id :: string
  from_agent :: string
  to_agent :: string
  message_type :: MessageType
  priority :: Priority
  timestamp :: string
  payload :: "(string \<times> string) list"
  correlation_id :: "string option"
  reply_to :: "string option"
  expires_at :: "string option"

text \<open>
  A delivery handler is a callable of the receiving agent. The router sees only how the
  call ends: it returns a value, of which the router uses the truth value, or it
  raises an exception.
\<close>

datatype handler_outcome = Returns bool | Raises

type_synonym delivery_handler = "AgentMessage \<Rightarrow> handler_outcome"

record DeliveryStats =
  sent :: nat
  delivered :: nat
  failed :: nat
  expired :: nat

text \<open>
  \<open>handler_calls\<close> is the trace of the handler invocations the router has made
  (the recipient id and the message passed), in order: the effect of
  \<open>await handler(message)\<close> that the router itself does not store.
\<close>

record MessageRouter =
  delivery_handlers :: "string \<rightharpoonup> delivery_handler"
  message_history :: "AgentMessage list"
  delivery_stats :: DeliveryStats
  handler_calls :: "(string \<times> AgentMessage) list"

definition MessageRouter_init :: MessageRouter where
  "MessageRouter_init =
     \<lparr>delivery_handlers = Map.empty, message_history = [],
      delivery_stats = \<lparr>sent = 0, delivered = 0, failed = 0, expired = 0\<rparr>,
      handler_calls = []\<rparr>"

definition register_agent :: "MessageRouter \<Rightarrow> string \<Rightarrow> delivery_handler \<Rightarrow> MessageRouter" where
  "register_agent r agent_id delivery_handler =
     r\<lparr>delivery_handlers := (delivery_handlers r)(agent_id \<mapsto> delivery_handler)\<rparr>"

text \<open>
  Python's datetime values are naive (no time zone) or aware. \<open>datetime.now()\<close> is
  naive. An order comparison of a naive with an aware value raises TypeError.
  \<open>datetime.fromisoformat\<close> belongs to the standard library and is a parameter of the
  model: \<open>None\<close> is its ValueError. A string carrying a UTC offset parses to an aware
  value.
\<close>

datatype pydatetime = Naive int | Aware int

type_synonym fromisoformat = "string \<Rightarrow> pydatetime option"

fun datetime_gt :: "pydatetime \<Rightarrow> pydatetime \<Rightarrow> bool option" where
  "datetime_gt (Naive a) (Naive b) = Some (a > b)"
| "datetime_gt (Aware a) (Aware b) = Some (a > b)"
| "datetime_gt (Naive a) (Aware b) = None"
| "datetime_gt (Aware a) (Naive b) = None"

text \<open>\<open>s.replace('Z', '+00:00')\<close>: every occurrence is replaced.\<close>

definition replace_Z :: "string \<Rightarrow> string" where
  "replace_Z s = concat (map (\<lambda>c. if c = CHR ''Z'' then ''+00:00'' else [c]) s)"

text \<open>
  \<open>_is_expired\<close>. \<open>not message.expires_at\<close> holds for \<open>None\<close> and for the empty
  string. The bare \<open>except\<close> turns every exception of the parse and of the comparison
  into \<open>False\<close>.
\<close>

definition is_expired :: "fromisoformat \<Rightarrow> int \<Rightarrow> AgentMessage \<Rightarrow> bool" where
  "is_expired parse now message =
     (case expires_at message of
        None \<Rightarrow> False
      | Some s \<Rightarrow>
          if s = [] then False
          else (case parse (replace_Z s) of
                  None \<Rightarrow> False
                | Some expires_time \<Rightarrow>
                    (case datetime_gt (Naive now) expires_time of
                       None \<Rightarrow> False
                     | Some b \<Rightarrow> b)))"

definition add_to_history :: "MessageRouter \<Rightarrow> AgentMessage \<Rightarrow> MessageRouter" where
  "add_to_history r message =
     r\<lparr>message_history := append_bounded 1000 (message_history r) message\<rparr>"

definition count_failed :: "MessageRouter \<Rightarrow> MessageRouter" where
  "count_failed r = r\<lparr>delivery_stats := (delivery_stats r)\<lparr>failed := failed (delivery_stats r) + 1\<rparr>\<rparr>"

definition count_delivered :: "MessageRouter \<Rightarrow> MessageRouter" where
  "count_delivered r =
     r\<lparr>delivery_stats := (delivery_stats r)\<lparr>delivered := delivered (delivery_stats r) + 1\<rparr>\<rparr>"

definition count_expired :: "MessageRouter \<Rightarrow> MessageRouter" where
  "count_expired r =
     r\<lparr>delivery_stats := (delivery_stats r)\<lparr>expired := expired (delivery_stats r) + 1\<rparr>\<rparr>"

text \<open>
  \<open>send_message\<close> returns its boolean and the router after the call. The
  \<open>except Exception\<close> around the body is the \<open>Raises\<close> branch: nothing else in the
  body can raise.
\<close>

definition send_message ::
  "fromisoformat \<Rightarrow> int \<Rightarrow> MessageRouter \<Rightarrow> AgentMessage \<Rightarrow> bool \<times> MessageRouter" where
  "send_message parse now r message =
     (if is_expired parse now message then (False, count_expired r)
      else
        let r1 = add_to_history r message in
        (case delivery_handlers r1 (to_agent message) of
           Some handler \<Rightarrow>
             (let r2 = r1\<lparr>handler_calls := handler_calls r1 @ [(to_agent message, message)]\<rparr> in
              case handler message of
                Returns ok \<Rightarrow>
                  if ok then (ok, count_delivered r2) else (ok, count_failed r2)
              | Raises \<Rightarrow> (False, count_failed r2))
         | None \<Rightarrow> (False, count_failed r1)))"

section \<open>framework/agent\_monitor.py: the activity monitor\<close>

datatype AgentState = IDLE | PROCESSING | WAITING | COMPLETE | STATE_ERROR | COMMUNICATING

datatype MessageDirection = INCOMING | OUTGOING | INTERNAL

text \<open>The values found in the \<open>details\<close> dict of an activity.\<close>

datatype detail = Text string | Number int | Flag bool | Dict "(string \<times> string) list"
  | Strings "string list"

record AgentActivity =
  activity_agent_id :: string
  activity_timestamp :: string
  activity_type :: string
  activity_state :: AgentState
  activity_details :: "(string \<times> detail) list"
  activity_message_id :: "string option"
  target_agent :: "string option"
  activity_processing_time :: "rat option"

record MessageFlow =
  flow_message_id :: string
  flow_from_agent :: string
  flow_to_agent :: string
  flow_message_type :: string
  flow_timestamp :: string
  direction :: MessageDirection
  payload_size :: int
  flow_processing_time :: "rat option"
  response_message_id :: "string option"

record AgentMetrics =
  agent_id :: string
  total_messages_sent :: int
  total_messages_received :: int
  average_processing_time :: rat
  current_state :: AgentState
  last_activity :: "string option"
  active_collaborations :: "string set"
  error_count :: int

text \<open>The dataclass defaults of \<open>AgentMetrics(agent_id=a)\<close>.\<close>

definition AgentMetrics_new :: "string \<Rightarrow> AgentMetrics" where
  "AgentMetrics_new a =
     \<lparr>agent_id = a, total_messages_sent = 0, total_messages_received = 0,
      average_processing_time = 0, current_state = IDLE, last_activity = None,
      active_collaborations = {}, error_count = 0\<rparr>"

text \<open>
  The monitor. \<open>agent_relationships\<close> is a \<open>defaultdict(set)\<close>: reading a missing
  key yields the empty set and stores it. The workflow registers, which the logging
  operations do not touch, and the WebSocket client set stay out of the model:
  \<open>_broadcast_to_clients\<close> only serialises the message and changes nothing.
  \<open>clock_reads\<close> counts the calls of \<open>_get_timestamp\<close>.
\<close>

record AgentMonitor =
  max_history_size :: nat
  activity_history :: "AgentActivity list"
  message_flows :: "MessageFlow list"
  agent_states :: "string \<rightharpoonup> AgentState"
  agent_metrics :: "string \<rightharpoonup> AgentMetrics"
  agent_relationships :: "string \<rightharpoonup> string set"
  clock_reads :: nat

definition AgentMonitor_init :: "nat \<Rightarrow> AgentMonitor" where
  "AgentMonitor_init n =
     \<lparr>max_history_size = n, activity_history = [], message_flows = [],
      agent_states = Map.empty, agent_metrics = Map.empty,
      agent_relationships = Map.empty, clock_reads = 0\<rparr>"

definition get_timestamp :: "(nat \<Rightarrow> string) \<Rightarrow> AgentMonitor \<Rightarrow> string \<times> AgentMonitor" where
  "get_timestamp clock m = (clock (clock_reads m), m\<lparr>clock_reads := clock_reads m + 1\<rparr>)"

text \<open>
  \<open>_broadcast_state_change\<close> reads the clock for the message it builds; the message
  itself goes to \<open>_broadcast_to_clients\<close> and leaves no trace.
\<close>

definition broadcast_state_change :: "(nat \<Rightarrow> string) \<Rightarrow> AgentMonitor \<Rightarrow> AgentMonitor" where
  "broadcast_state_change clock m = snd (get_timestamp clock m)"

definition update_agent_state ::
  "(nat \<Rightarrow> string) \<Rightarrow> AgentMonitor \<Rightarrow> string \<Rightarrow> AgentState \<Rightarrow> AgentMonitor" where
  "update_agent_state clock m a new_state =
     (let old_state = (case agent_states m a of None \<Rightarrow> IDLE | Some s \<Rightarrow> s);
          m1 = m\<lparr>agent_states := (agent_states m)(a \<mapsto> new_state)\<rparr>;
          m2 = (case agent_metrics m1 a of
                  None \<Rightarrow> m1
                | Some met \<Rightarrow>
                    (let (ts, m') = get_timestamp clock m1
                     in m'\<lparr>agent_metrics := (agent_metrics m')
                              (a \<mapsto> met\<lparr>current_state := new_state, last_activity := Some ts\<rparr>)\<rparr>))
      in if old_state \<noteq> new_state then broadcast_state_change clock m2 else m2)"

text \<open>\<open>self.agent_metrics[a]\<close>: a subscript on a plain dict raises KeyError on a missing key.\<close>

definition metrics_subscript :: "AgentMonitor \<Rightarrow> string \<Rightarrow> exn + AgentMetrics" where
  "metrics_subscript m a = (case agent_metrics m a of None \<Rightarrow> Inl Key_Error | Some met \<Rightarrow> Inr met)"

definition relationships_add :: "AgentMonitor \<Rightarrow> string \<Rightarrow> string \<Rightarrow> AgentMonitor" where
  "relationships_add m a b =
     m\<lparr>agent_relationships := (agent_relationships m)
          (a \<mapsto> insert b (case agent_relationships m a of None \<Rightarrow> {} | Some s \<Rightarrow> s))\<rparr>"

definition log_message_sent ::
  "(nat \<Rightarrow> string) \<Rightarrow> AgentMonitor \<Rightarrow> string \<Rightarrow> string \<Rightarrow> string \<Rightarrow> string \<Rightarrow> int
     \<Rightarrow> exn + AgentMonitor" where
  "log_message_sent clock m from_a to_a msg_id msg_type psize =
     (let (ts, m0) = get_timestamp clock m;
          m1 = update_agent_state clock m0 from_a COMMUNICATING;
          message_flow = \<lparr>flow_message_id = msg_id, flow_from_agent = from_a,
             flow_to_agent = to_a, flow_message_type = msg_type, flow_timestamp = ts,
             direction = OUTGOING, payload_size = psize, flow_processing_time = None,
             response_message_id = None\<rparr>;
          m2 = m1\<lparr>message_flows := append_bounded (max_history_size m1) (message_flows m1) message_flow\<rparr>;
          m3 = (if agent_metrics m2 from_a = None
                then m2\<lparr>agent_metrics := (agent_metrics m2)(from_a \<mapsto> AgentMetrics_new from_a)\<rparr>
                else m2)
      in case metrics_subscript m3 from_a of
           Inl e \<Rightarrow> Inl e
         | Inr met \<Rightarrow>
            (let m4 = m3\<lparr>agent_metrics := (agent_metrics m3)
                        (from_a \<mapsto> met\<lparr>total_messages_sent := total_messages_sent met + 1\<rparr>)\<rparr>;
                 m5 = relationships_add (relationships_add m4 from_a to_a) to_a from_a;
                 activity = \<lparr>activity_agent_id = from_a, activity_timestamp = ts,
                    activity_type = ''message_sent'', activity_state = COMMUNICATING,
                    activity_details = [(''to_agent'', Text to_a), (''message_type'', Text msg_type),
                                        (''payload_size'', Number psize)],
                    activity_message_id = Some msg_id, target_agent = Some to_a,
                    activity_processing_time = None\<rparr>
             in Inr (m5\<lparr>activity_history :=
                        append_bounded (max_history_size m5) (activity_history m5) activity\<rparr>)))"

definition log_message_received ::
  "(nat \<Rightarrow> string) \<Rightarrow> AgentMonitor \<Rightarrow> string \<Rightarrow> string \<Rightarrow> string \<Rightarrow> string \<Rightarrow> int
     \<Rightarrow> exn + AgentMonitor" where
  "log_message_received clock m to_a from_a msg_id msg_type psize =
     (let (ts, m0) = get_timestamp clock m;
          m1 = update_agent_state clock m0 to_a PROCESSING;
          m2 = (if agent_metrics m1 to_a = None
                then m1\<lparr>agent_metrics := (agent_metrics m1)(to_a \<mapsto> AgentMetrics_new to_a)\<rparr>
                else m1)
      in case metrics_subscript m2 to_a of
           Inl e \<Rightarrow> Inl e
         | Inr met \<Rightarrow>
            (let m3 = m2\<lparr>agent_metrics := (agent_metrics m2)
                        (to_a \<mapsto> met\<lparr>total_messages_received := total_messages_received met + 1\<rparr>)\<rparr>;
                 activity = \<lparr>activity_agent_id = to_a, activity_timestamp = ts,
                    activity_type = ''message_received'', activity_state = PROCESSING,
                    activity_details = [(''from_agent'', Text from_a), (''message_type'', Text msg_type),
                                        (''payload_size'', Number psize)],
                    activity_message_id = Some msg_id, target_agent = Some from_a,
                    activity_processing_time = None\<rparr>
             in Inr (m3\<lparr>activity_history :=
                        append_bounded (max_history_size m3) (activity_history m3) activity\<rparr>)))"

text \<open>
  \<open>log_processing_complete\<close>, up to its return. The timer it starts sets the agent's
  state to idle a second later, from another thread; it does not touch the average.
\<close>

definition log_processing_complete ::
  "(nat \<Rightarrow> string) \<Rightarrow> AgentMonitor \<Rightarrow> string \<Rightarrow> string \<Rightarrow> rat \<Rightarrow> (string \<times> string) list
     \<Rightarrow> AgentMonitor" where
  "log_processing_complete clock m a task_type processing_time result_summary =
     (let m1 = update_agent_state clock m a COMPLETE;
          m2 = (case agent_metrics m1 a of
                  None \<Rightarrow> m1
                | Some met \<Rightarrow>
                   (let current_avg = average_processing_time met;
                        count = total_messages_sent met + total_messages_received met
                    in if count > 0
                       then m1\<lparr>agent_metrics := (agent_metrics m1)
                              (a \<mapsto> met\<lparr>average_processing_time :=
                                 (current_avg * of_int (count - 1) + processing_time) / of_int count\<rparr>)\<rparr>
                       else m1\<lparr>agent_metrics := (agent_metrics m1)
                              (a \<mapsto> met\<lparr>average_processing_time := processing_time\<rparr>)\<rparr>));
          (ts, m3) = get_timestamp clock m2;
          activity = \<lparr>activity_agent_id = a, activity_timestamp = ts,
             activity_type = ''processing_complete'', activity_state = COMPLETE,
             activity_details = [(''task_type'', Text task_type),
                                 (''result_summary'', Dict result_summary), (''success'', Flag True)],
             activity_message_id = None, target_agent = None,
             activity_processing_time = Some processing_time\<rparr>
      in m3\<lparr>activity_history :=
              append_bounded (max_history_size m3) (activity_history m3) activity\<rparr>)"

text \<open>
  \<open>log_processing_start\<close> and \<open>log_processing_error\<close>. Neither creates a metrics
  record: the error counter is touched only under \<open>if agent_id in self.agent_metrics\<close>.
  The timer of \<open>log_processing_error\<close> fires two seconds after the return, from
  another thread.
\<close>

definition log_processing_start ::
  "(nat \<Rightarrow> string) \<Rightarrow> AgentMonitor \<Rightarrow> string \<Rightarrow> string \<Rightarrow> (string \<times> string) list
     \<Rightarrow> AgentMonitor" where
  "log_processing_start clock m a task_type task_details =
     (let m1 = update_agent_state clock m a PROCESSING;
          (ts, m2) = get_timestamp clock m1;
          activity = \<lparr>activity_agent_id = a, activity_timestamp = ts,
             activity_type = ''processing_start'', activity_state = PROCESSING,
             activity_details = [(''task_type'', Text task_type),
                                 (''task_details'', Dict task_details)],
             activity_message_id = None, target_agent = None,
             activity_processing_time = None\<rparr>
      in m2\<lparr>activity_history :=
              append_bounded (max_history_size m2) (activity_history m2) activity\<rparr>)"

definition log_processing_error ::
  "(nat \<Rightarrow> string) \<Rightarrow> AgentMonitor \<Rightarrow> string \<Rightarrow> string \<Rightarrow> string \<Rightarrow> AgentMonitor" where
  "log_processing_error clock m a task_type error_message =
     (let m1 = update_agent_state clock m a STATE_ERROR;
          m2 = (case agent_metrics m1 a of
                  None \<Rightarrow> m1
                | Some met \<Rightarrow>
                    m1\<lparr>agent_metrics := (agent_metrics m1)
                          (a \<mapsto> met\<lparr>error_count := error_count met + 1\<rparr>)\<rparr>);
          (ts, m3) = get_timestamp clock m2;
          activity = \<lparr>activity_agent_id = a, activity_timestamp = ts,
             activity_type = ''processing_error'', activity_state = STATE_ERROR,
             activity_details = [(''task_type'', Text task_type),
                                 (''error_message'', Text error_message), (''success'', Flag False)],
             activity_message_id = None, target_agent = None,
             activity_processing_time = None\<rparr>
      in m3\<lparr>activity_history :=
              append_bounded (max_history_size m3) (activity_history m3) activity\<rparr>)"

text \<open>
  \<open>AgentMonitor.register_agent\<close>; the router has a method of the same name, hence the
  suffix. The two clock reads are those of the activity's \<open>timestamp\<close> and of the
  \<open>registration_time\<close> in its details, in this order.
\<close>

definition register_agent_monitor ::
  "(nat \<Rightarrow> string) \<Rightarrow> AgentMonitor \<Rightarrow> string \<Rightarrow> string \<Rightarrow> string list \<Rightarrow> AgentMonitor" where
  "register_agent_monitor clock m a agent_name capabilities =
     (let m1 = m\<lparr>agent_states := (agent_states m)(a \<mapsto> IDLE),
                  agent_metrics := (agent_metrics m)(a \<mapsto> AgentMetrics_new a)\<rparr>;
          (ts, m2) = get_timestamp clock m1;
          (rt, m3) = get_timestamp clock m2;
          activity = \<lparr>activity_agent_id = a, activity_timestamp = ts,
             activity_type = ''agent_registered'', activity_state = IDLE,
             activity_details = [(''agent_name'', Text agent_name),
                                 (''capabilities'', Strings capabilities),
                                 (''registration_time'', Text rt)],
             activity_message_id = None, target_agent = None,
             activity_processing_time = None\<rparr>
      in m3\<lparr>activity_history :=
              append_bounded (max_history_size m3) (activity_history m3) activity\<rparr>)"
section \<open>agents/test\_execution.py: the test execution agent\<close>

subsection \<open>Data\<close>

datatype ExecutionStatus = QUEUED | RUNNING | COMPLETED | FAILED | CANCELLED

datatype TestResult = PASSED | RESULT_FAILED | SKIPPED | RESULT_ERROR

record ExecutionStep =
  step_number :: nat
  description :: string
  step_status :: string
  step_start_time :: "string option"
  step_end_time :: "string option"
  duration_ms :: "int option"
  details :: "string option"
  error_message :: "string option"
  error_code :: "string option"
  screenshot :: "string option"

record Recommendation =
  rec_action :: string
  rec_priority :: string
  estimated_fix_time :: string
  automation_available :: bool

text \<open>The dictionary that \<open>_attempt_auto_healing\<close> returns.\<close>

record HealingResult =
  success :: bool
  action :: string
  pattern :: string
  analysis :: string
  root_cause :: string
  auto_retry_attempted :: bool
  auto_retry_result :: string
  auto_retry_details :: string
  recommendations :: "Recommendation list"

text \<open>
  \<open>TestExecution\<close>. The labels \<open>test_case_id\<close> and \<open>test_name\<close>, the
  \<open>environment\<close> descriptor and the two reports written once at the end of a run,
  \<open>performance_metrics\<close> and \<open>validations\<close>, are left out: no operation modelled
  here reads them. The random numbers they consume are simply not part of the stream of
  draws, which is an arbitrary input.
\<close>

record TestExecution =
  execution_id :: string
  transaction :: string
  status :: ExecutionStatus
  result :: "TestResult option"
  start_time :: string
  end_time :: "string option"
  duration_seconds :: "rat option"
  current_step :: nat
  total_steps :: nat
  execution_steps :: "ExecutionStep list"
  auto_healing :: "HealingResult option"

record Complexity =
  base_time :: nat
  complexity :: string
  failure_rate :: rat

definition sap_transaction_complexity :: "(string \<times> Complexity) list" where
  "sap_transaction_complexity =
     [(''ME21N'', \<lparr>base_time = 45, complexity = ''medium'', failure_rate = 15 / 100\<rparr>),
      (''MIGO'', \<lparr>base_time = 30, complexity = ''low'', failure_rate = 8 / 100\<rparr>),
      (''VA01'', \<lparr>base_time = 60, complexity = ''high'', failure_rate = 22 / 100\<rparr>),
      (''FB60'', \<lparr>base_time = 40, complexity = ''medium'', failure_rate = 12 / 100\<rparr>),
      (''ME28'', \<lparr>base_time = 25, complexity = ''low'', failure_rate = 5 / 100\<rparr>),
      (''MIRO'', \<lparr>base_time = 50, complexity = ''high'', failure_rate = 18 / 100\<rparr>),
      (''VF01'', \<lparr>base_time = 35, complexity = ''medium'', failure_rate = 10 / 100\<rparr>),
      (''VL01N'', \<lparr>base_time = 55, complexity = ''high'', failure_rate = 20 / 100\<rparr>)]"

record HealingStrategy =
  strategy_action :: string
  success_rate :: rat

record ErrorPattern =
  pattern_description :: string
  frequency :: rat
  healing_strategies :: "HealingStrategy list"

definition error_patterns :: "(string \<times> ErrorPattern) list" where
  "error_patterns =
     [(''approval_timeout'',
        \<lparr>pattern_description = ''Workflow approval timeout'', frequency = 35 / 100,
         healing_strategies =
           [\<lparr>strategy_action = ''retry_with_alternative_approver'', success_rate = 85 / 100\<rparr>,
            \<lparr>strategy_action = ''extend_timeout_period'', success_rate = 60 / 100\<rparr>,
            \<lparr>strategy_action = ''use_emergency_approval'', success_rate = 95 / 100\<rparr>]\<rparr>),
      (''vendor_invalid'',
        \<lparr>pattern_description = ''Invalid or blocked vendor'', frequency = 25 / 100,
         healing_strategies =
           [\<lparr>strategy_action = ''suggest_alternative_vendor'', success_rate = 90 / 100\<rparr>,
            \<lparr>strategy_action = ''unblock_vendor_temporarily'', success_rate = 75 / 100\<rparr>,
            \<lparr>strategy_action = ''create_new_vendor_record'', success_rate = 95 / 100\<rparr>]\<rparr>),
      (''material_not_found'',
        \<lparr>pattern_description = ''Material master not maintained'', frequency = 20 / 100,
         healing_strategies =
           [\<lparr>strategy_action = ''suggest_similar_material'', success_rate = 80 / 100\<rparr>,
            \<lparr>strategy_action = ''create_material_master'', success_rate = 90 / 100\<rparr>,
            \<lparr>strategy_action = ''use_material_substitution'', success_rate = 70 / 100\<rparr>]\<rparr>),
      (''authorization_missing'',
        \<lparr>pattern_description = ''User lacks required authorization'', frequency = 15 / 100,
         healing_strategies =
           [\<lparr>strategy_action = ''assign_temporary_authorization'', success_rate = 85 / 100\<rparr>,
            \<lparr>strategy_action = ''use_authorized_user'', success_rate = 95 / 100\<rparr>,
            \<lparr>strategy_action = ''request_authorization_from_admin'', success_rate = 70 / 100\<rparr>]\<rparr>),
      (''network_timeout'',
        \<lparr>pattern_description = ''Network connection timeout'', frequency = 5 / 100,
         healing_strategies =
           [\<lparr>strategy_action = ''retry_with_backoff'', success_rate = 75 / 100\<rparr>,
            \<lparr>strategy_action = ''switch_to_backup_server'', success_rate = 90 / 100\<rparr>,
            \<lparr>strategy_action = ''reduce_transaction_complexity'', success_rate = 60 / 100\<rparr>]\<rparr>)]"

subsection \<open>Exceptions, the random source and the clock\<close>

definition then_do :: "exn + 'a \<Rightarrow> ('a \<Rightarrow> exn + 'b) \<Rightarrow> exn + 'b" where
  "then_do r f = (case r of Inl e \<Rightarrow> Inl e | Inr x \<Rightarrow> f x)"

text \<open>\<open>d[k]\<close> and \<open>del d[k]\<close> on a dict kept as an association list.\<close>

definition dict_subscript :: "('k \<times> 'v) list \<Rightarrow> 'k \<Rightarrow> exn + 'v" where
  "dict_subscript d k = (case map_of d k of None \<Rightarrow> Inl Key_Error | Some v \<Rightarrow> Inr v)"

definition dict_del :: "('k \<times> 'v) list \<Rightarrow> 'k \<Rightarrow> exn + ('k \<times> 'v) list" where
  "dict_del d k = (case map_of d k of None \<Rightarrow> Inl Key_Error | Some v \<Rightarrow> Inr (AList.delete k d))"

text \<open>
  The environment gives the successive values of \<open>random.random()\<close> and of
  \<open>datetime.now().isoformat()\<close>; the world counts how many of each were taken.
\<close>

record Env =
  random_values :: "nat \<Rightarrow> rat"
  clock_values :: "nat \<Rightarrow> string"

record World =
  rand_calls :: nat
  clock_calls :: nat

definition random_random :: "Env \<Rightarrow> World \<Rightarrow> rat \<times> World" where
  "random_random env w = (random_values env (rand_calls w), w\<lparr>rand_calls := rand_calls w + 1\<rparr>)"

text \<open>\<open>random.uniform(a, b)\<close> is \<open>a + (b - a) * random()\<close>.\<close>

definition random_uniform :: "Env \<Rightarrow> World \<Rightarrow> rat \<Rightarrow> rat \<Rightarrow> rat \<times> World" where
  "random_uniform env w a b = (let (u, w') = random_random env w in (a + (b - a) * u, w'))"

definition datetime_now :: "Env \<Rightarrow> World \<Rightarrow> string \<times> World" where
  "datetime_now env w = (clock_values env (clock_calls w), w\<lparr>clock_calls := clock_calls w + 1\<rparr>)"

text \<open>
  \<open>random.choices(population, weights)[0]\<close>: the weights are accumulated, the draw
  is scaled by their total, and \<open>bisect\<close> over all but the last cumulative weight
  gives the index. On an ascending list the binary search returns the number of leading
  entries not above the key.
\<close>

fun accumulate :: "rat \<Rightarrow> rat list \<Rightarrow> rat list" where
  "accumulate acc [] = []"
| "accumulate acc (x # xs) = (acc + x) # accumulate (acc + x) xs"

definition bisect :: "rat list \<Rightarrow> rat \<Rightarrow> nat" where
  "bisect cs x = length (takeWhile (\<lambda>c. c \<le> x) cs)"

definition random_choices :: "Env \<Rightarrow> World \<Rightarrow> 'a list \<Rightarrow> rat list \<Rightarrow> exn + ('a \<times> World)" where
  "random_choices env w population weights =
     (let n = length population;
          cum_weights = accumulate 0 weights
      in if length cum_weights \<noteq> n then Inl Value_Error
         else if cum_weights = [] then Inl Index_Error
         else if last cum_weights \<le> 0 then Inl Value_Error
         else (let (u, w') = random_random env w
               in Inr (population ! bisect (take (n - 1) cum_weights) (u * last cum_weights), w')))"

text \<open>\<open>int(x)\<close> on a float truncates towards zero; \<open>str(n)\<close> on a natural number.\<close>

definition py_int :: "rat \<Rightarrow> int" where
  "py_int x = (if 0 \<le> x then \<lfloor>x\<rfloor> else \<lceil>x\<rceil>)"

function str_nat :: "nat \<Rightarrow> string" where
  "str_nat n = (if n < 10 then [''0123456789'' ! n]
                else str_nat (n div 10) @ [''0123456789'' ! (n mod 10)])"
  by pat_completeness auto
termination
  by (relation "measure id") auto

declare str_nat.simps [simp del]

subsection \<open>Step templates\<close>

definition base_steps :: "string \<Rightarrow> string list" where
  "base_steps transaction' =
     [''Login to SAP system'',
      ''Navigate to '' @ transaction' @ '' transaction'',
      ''Enter transaction data'',
      ''Validate input fields'',
      ''Save transaction'',
      ''Verify transaction completion'']"

definition transaction_steps :: "(string \<times> string list) list" where
  "transaction_steps =
     [(''ME21N'', [''Enter vendor information'', ''Add material line items'',
                   ''Set delivery details'', ''Check approval workflow'',
                   ''Generate purchase order number'']),
      (''MIGO'', [''Reference purchase order'', ''Enter received quantities'',
                  ''Check quality inspection'', ''Post goods receipt'',
                  ''Generate material document'']),
      (''VA01'', [''Enter customer information'', ''Add product line items'',
                  ''Check ATP availability'', ''Calculate pricing'',
                  ''Generate sales order number'']),
      (''FB60'', [''Enter vendor invoice details'', ''Reference purchase order'',
                  ''Validate tax calculations'', ''Check approval limits'',
                  ''Post invoice document''])]"

definition new_step :: "nat \<Rightarrow> string \<Rightarrow> ExecutionStep" where
  "new_step i d =
     \<lparr>step_number = i, description = d, step_status = ''pending'', step_start_time = None,
      step_end_time = None, duration_ms = None, details = None, error_message = None,
      error_code = None, screenshot = None\<rparr>"

definition generate_execution_steps :: "string \<Rightarrow> ExecutionStep list" where
  "generate_execution_steps transaction' =
     (let all_steps = take 2 (base_steps transaction')
            @ (case map_of transaction_steps transaction' of None \<Rightarrow> [] | Some xs \<Rightarrow> xs)
            @ drop 2 (base_steps transaction')
      in map (\<lambda>(i, d). new_step i d) (zip [1..<Suc (length all_steps)] all_steps))"

subsection \<open>Failure injection and auto-healing\<close>

definition critical_steps :: "string list" where
  "critical_steps = [''Enter transaction data'', ''Save transaction'', ''Check approval workflow'']"

text \<open>
  \<open>_should_step_fail\<close>: \<open>step_failure_rate\<close> is the value of the local
  \<open>failure_rate\<close> at the comparison with the draw.
\<close>

definition base_failure_rate :: "string \<Rightarrow> rat" where
  "base_failure_rate transaction' =
     (case map_of sap_transaction_complexity transaction' of
        None \<Rightarrow> 15 / 100 | Some c \<Rightarrow> failure_rate c)"

definition step_failure_rate :: "string \<Rightarrow> ExecutionStep \<Rightarrow> nat \<Rightarrow> rat" where
  "step_failure_rate transaction' step step_index =
     (let rate = (if description step \<in> set critical_steps
                  then base_failure_rate transaction' * (15 / 10)
                  else base_failure_rate transaction' * (5 / 10))
      in if step_index < 2 then rate * (2 / 10) else rate)"

definition should_step_fail ::
  "Env \<Rightarrow> World \<Rightarrow> string \<Rightarrow> ExecutionStep \<Rightarrow> nat \<Rightarrow> bool \<times> World" where
  "should_step_fail env w transaction' step step_index =
     (let (u, w') = random_random env w
      in (u < step_failure_rate transaction' step step_index, w'))"

record ErrorInfo =
  err_code :: string
  err_message :: string
  err_details :: string
  err_pattern :: string

definition error_codes :: "(string \<times> string) list" where
  "error_codes =
     [(''approval_timeout'', ''ME_APPROVAL_TIMEOUT''),
      (''vendor_invalid'', ''ME_VENDOR_INVALID''),
      (''material_not_found'', ''MM_MATERIAL_NOT_FOUND''),
      (''authorization_missing'', ''SY_NO_AUTHORIZATION''),
      (''network_timeout'', ''SY_NETWORK_TIMEOUT'')]"

definition error_messages :: "string \<Rightarrow> ExecutionStep \<Rightarrow> (string \<times> string) list" where
  "error_messages transaction' step =
     [(''approval_timeout'',
         ''Approval workflow timeout - '' @ description step @ '' requires manager approval''),
      (''vendor_invalid'', ''Vendor validation failed - vendor does not exist or is blocked''),
      (''material_not_found'', ''Material master not maintained for requested item''),
      (''authorization_missing'', ''User lacks required authorization for '' @ transaction'),
      (''network_timeout'', ''Network timeout during '' @ description step)]"

definition generate_step_error ::
  "Env \<Rightarrow> World \<Rightarrow> string \<Rightarrow> ExecutionStep \<Rightarrow> exn + (ErrorInfo \<times> World)" where
  "generate_step_error env w transaction' step =
     (let names = map fst error_patterns;
          weights = map (\<lambda>(name, p). frequency p) error_patterns
      in then_do (random_choices env w names weights) (\<lambda>(selected_pattern, w').
         then_do (dict_subscript error_patterns selected_pattern) (\<lambda>pattern_info.
         then_do (dict_subscript error_codes selected_pattern) (\<lambda>c.
         then_do (dict_subscript (error_messages transaction' step) selected_pattern) (\<lambda>msg.
           Inr (\<lparr>err_code = c, err_message = msg,
                 err_details = pattern_description pattern_info,
                 err_pattern = selected_pattern\<rparr>, w'))))))"

text \<open>
  \<open>sorted(healing_strategies, key=success_rate, reverse=True)\<close>: a stable sort,
  descending; entries of equal rate keep their order.
\<close>

definition sorted_strategies :: "HealingStrategy list \<Rightarrow> HealingStrategy list" where
  "sorted_strategies sts = sort_key (\<lambda>x. - success_rate x) sts"

text \<open>The loop over the sorted strategies: one draw each, until one falls below the rate.\<close>

fun try_strategies :: "Env \<Rightarrow> World \<Rightarrow> HealingStrategy list \<Rightarrow> HealingStrategy option \<times> World" where
  "try_strategies env w [] = (None, w)"
| "try_strategies env w (strategy # rest) =
     (let (u, w') = random_random env w
      in if u < success_rate strategy then (Some strategy, w')
         else try_strategies env w' rest)"

definition healing_succeeded :: "ErrorInfo \<Rightarrow> HealingStrategy \<Rightarrow> HealingResult" where
  "healing_succeeded error_info strategy =
     \<lparr>success = True,
      action = strategy_action strategy,
      pattern = err_pattern error_info,
      analysis = ''Auto-healing successful using '' @ strategy_action strategy,
      root_cause = err_details error_info,
      auto_retry_attempted = True,
      auto_retry_result = ''success'',
      auto_retry_details = ''Automatically resolved '' @ err_pattern error_info
         @ '' by applying '' @ strategy_action strategy,
      recommendations =
        [\<lparr>rec_action = strategy_action strategy, rec_priority = ''high'',
          estimated_fix_time = ''30 seconds'', automation_available = True\<rparr>]\<rparr>"

definition healing_failed :: "ErrorInfo \<Rightarrow> HealingResult" where
  "healing_failed error_info =
     \<lparr>success = False,
      action = ''manual_intervention_required'',
      pattern = err_pattern error_info,
      analysis = ''Auto-healing failed for '' @ err_pattern error_info,
      root_cause = err_details error_info,
      auto_retry_attempted = True,
      auto_retry_result = ''failed'',
      auto_retry_details = ''All automated healing strategies failed'',
      recommendations =
        [\<lparr>rec_action = ''manual_investigation_required'', rec_priority = ''high'',
          estimated_fix_time = ''10 minutes'', automation_available = False\<rparr>]\<rparr>"

definition attempt_auto_healing :: "Env \<Rightarrow> World \<Rightarrow> ErrorInfo \<Rightarrow> exn + (HealingResult \<times> World)" where
  "attempt_auto_healing env w error_info =
     then_do (dict_subscript error_patterns (err_pattern error_info)) (\<lambda>p.
       case try_strategies env w (sorted_strategies (healing_strategies p)) of
         (Some strategy, w') \<Rightarrow> Inr (healing_succeeded error_info strategy, w')
       | (None, w') \<Rightarrow> Inr (healing_failed error_info, w'))"

definition details_templates :: "string \<Rightarrow> (string \<times> string) list" where
  "details_templates transaction' =
     [(''Login to SAP system'', ''Successful login with user credentials''),
      (''Navigate to {transaction} transaction'',
         ''Transaction '' @ transaction' @ '' loaded successfully''),
      (''Enter transaction data'', ''All required fields populated successfully''),
      (''Save transaction'', ''Transaction saved successfully''),
      (''Enter vendor information'', ''Vendor V001 validated and accepted''),
      (''Add material line items'', ''Material M001 added, price determined automatically''),
      (''Generate purchase order number'', ''Purchase order 4500123456 created successfully''),
      (''Post goods receipt'', ''Material document 5000654321 created successfully''),
      (''Generate sales order number'', ''Sales order 1000567890 created successfully'')]"

definition generate_step_success_details :: "string \<Rightarrow> ExecutionStep \<Rightarrow> string" where
  "generate_step_success_details transaction' step =
     (case map_of (details_templates transaction') (description step) of
        Some d \<Rightarrow> d
      | None \<Rightarrow> ''Step '' @ [CHR 0x27] @ description step @ [CHR 0x27] @ '' completed successfully'')"

subsection \<open>The step loop of \<open>_simulate_sap_execution\<close>\<close>

text \<open>The locals of the loop, with the execution being run.\<close>

record LoopState =
  ls_execution :: TestExecution
  ls_total_duration :: rat
  ls_current_time :: string
  ls_world :: World

datatype loop_control = Continue | Break

text \<open>The end of a loop body that was not left by \<open>break\<close>.\<close>

definition complete_step :: "Env \<Rightarrow> nat \<Rightarrow> rat \<Rightarrow> ExecutionStep \<Rightarrow> LoopState \<Rightarrow> LoopState" where
  "complete_step env i step_time step ls =
     (let (now', w') = datetime_now env (ls_world ls);
          execution = ls_execution ls;
          step' = step\<lparr>step_end_time := Some now',
                       duration_ms := Some (py_int (step_time * 1000)),
                       screenshot := Some (execution_id execution @ ''_step_''
                                             @ str_nat (i + 1) @ ''.png'')\<rparr>
      in ls\<lparr>ls_execution := execution\<lparr>execution_steps := (execution_steps execution)[i := step']\<rparr>,
            ls_total_duration := ls_total_duration ls + step_time,
            ls_current_time := now',
            ls_world := w'\<rparr>)"

text \<open>
  One pass through the loop body, for the step at index \<open>i\<close>. The sleep of
  \<open>_simulate_step_delay\<close> changes nothing. In the healed branch \<open>details\<close> was
  assigned a string three statements earlier, so \<open>+=\<close> appends to it.
\<close>

definition simulate_step ::
  "Env \<Rightarrow> Complexity \<Rightarrow> nat \<Rightarrow> LoopState \<Rightarrow> exn + (loop_control \<times> LoopState)" where
  "simulate_step env cx i ls =
     (let execution = (ls_execution ls)\<lparr>current_step := i + 1\<rparr>;
          base_step_time = of_nat (base_time cx) / of_nat (length (execution_steps execution));
          (u, w1) = random_uniform env (ls_world ls) (7 / 10) (18 / 10);
          step_time = base_step_time * u;
          step = (execution_steps execution ! i)
                   \<lparr>step_status := ''running'', step_start_time := Some (ls_current_time ls)\<rparr>;
          (should_fail, w2) = should_step_fail env w1 (transaction execution) step i
      in if should_fail then
           then_do (generate_step_error env w2 (transaction execution) step) (\<lambda>(error_info, w3).
             let step1 = step\<lparr>step_status := ''failed'',
                              error_message := Some (err_message error_info),
                              error_code := Some (err_code error_info),
                              details := Some (err_details error_info)\<rparr>
             in then_do (attempt_auto_healing env w3 error_info) (\<lambda>(healing_result, w4).
                  if success healing_result then
                    let step2 = step1\<lparr>step_status := ''passed'',
                                  details := map_option
                                    (\<lambda>d. d @ '' | Auto-healed: '' @ action healing_result)
                                    (details step1)\<rparr>
                    in Inr (Continue,
                         complete_step env i step_time step2
                           (ls\<lparr>ls_execution := execution\<lparr>auto_healing := Some healing_result\<rparr>,
                               ls_world := w4\<rparr>))
                  else
                    Inr (Break,
                         ls\<lparr>ls_execution := execution
                               \<lparr>execution_steps := (execution_steps execution)[i := step1],
                                status := FAILED, result := Some RESULT_FAILED\<rparr>,
                            ls_world := w4\<rparr>)))
         else
           (let step1 = step\<lparr>step_status := ''passed'',
                  details := Some (generate_step_success_details (transaction execution) step)\<rparr>
            in Inr (Continue,
                 complete_step env i step_time step1
                   (ls\<lparr>ls_execution := execution, ls_world := w2\<rparr>))))"

text \<open>\<open>for i, step in enumerate(execution.execution_steps)\<close>, over the indices left.\<close>

fun simulate_steps :: "Env \<Rightarrow> Complexity \<Rightarrow> nat list \<Rightarrow> LoopState \<Rightarrow> exn + LoopState" where
  "simulate_steps env cx [] ls = Inr ls"
| "simulate_steps env cx (i # rest) ls =
     (case simulate_step env cx i ls of
        Inl e \<Rightarrow> Inl e
      | Inr (Break, ls') \<Rightarrow> Inr ls'
      | Inr (Continue, ls') \<Rightarrow> simulate_steps env cx rest ls')"

subsection \<open>The agent\<close>

text \<open>
  \<open>TestExecution\<close> objects are mutable and shared between \<open>active_executions\<close>
  and \<open>execution_history\<close>, so they live in a store, \<open>objects\<close>, and the two
  containers hold addresses (indices into the store). A new object gets the next address.
  \<open>active_executions\<close> is a dict from execution id to object.
\<close>

record Agent =
  active_executions :: "(string \<times> nat) list"
  execution_queue :: "string list"
  execution_history :: "nat list"
  max_concurrent_executions :: nat
  objects :: "TestExecution list"
  world :: World

definition Agent_init :: Agent where
  "Agent_init =
     \<lparr>active_executions = [], execution_queue = [], execution_history = [],
      max_concurrent_executions = 3, objects = [],
      world = \<lparr>rand_calls = 0, clock_calls = 0\<rparr>\<rparr>"

definition default_complexity :: Complexity where
  "default_complexity = \<lparr>base_time = 45, complexity = ''medium'', failure_rate = 15 / 100\<rparr>"

text \<open>
  \<open>_simulate_sap_execution\<close> from its first line to the removal from
  \<open>active_executions\<close>, for the execution at address \<open>a\<close>; the call of
  \<open>_process_execution_queue\<close> that ends it follows below.
\<close>

definition run_to_completion :: "Env \<Rightarrow> Agent \<Rightarrow> nat \<Rightarrow> exn + Agent" where
  "run_to_completion env s a =
     (let execution = objects s ! a;
          cx = (case map_of sap_transaction_complexity (transaction execution) of
                  None \<Rightarrow> default_complexity | Some c \<Rightarrow> c);
          (current_time, w0) = datetime_now env (world s);
          ls0 = \<lparr>ls_execution = execution, ls_total_duration = 0,
                 ls_current_time = current_time, ls_world = w0\<rparr>
      in then_do (simulate_steps env cx [0..<length (execution_steps execution)] ls0) (\<lambda>ls.
           let e1 = ls_execution ls;
               e2 = (if status e1 = RUNNING
                     then e1\<lparr>status := COMPLETED, result := Some PASSED\<rparr> else e1);
               (t_end, w1) = datetime_now env (ls_world ls);
               e3 = e2\<lparr>end_time := Some t_end, duration_seconds := Some (ls_total_duration ls)\<rparr>;
               s1 = s\<lparr>objects := (objects s)[a := e3], world := w1,
                       execution_history := execution_history s @ [a]\<rparr>
           in then_do (dict_del (active_executions s1) (execution_id e3)) (\<lambda>act.
                Inr (s1\<lparr>active_executions := act\<rparr>))))"

lemma run_to_completion_queue:
  "run_to_completion env s a = Inr s' \<Longrightarrow> execution_queue s' = execution_queue s"
  by (auto simp: run_to_completion_def then_do_def Let_def split: prod.splits sum.splits)

text \<open>
  \<open>_process_execution_queue\<close>, \<open>_start_execution\<close> and
  \<open>_simulate_sap_execution\<close> call one another. The awaited coroutines never
  suspend (\<open>_async_sleep\<close> is a blocking \<open>time.sleep\<close>), so each call runs to its
  end before the caller goes on. The search of \<open>_process_execution_queue\<close> for the
  dequeued id goes through \<open>execution_history\<close>, as in the source.
\<close>

function process_execution_queue :: "Env \<Rightarrow> Agent \<Rightarrow> exn + Agent"
  and start_execution :: "Env \<Rightarrow> Agent \<Rightarrow> nat \<Rightarrow> exn + Agent"
  and simulate_sap_execution :: "Env \<Rightarrow> Agent \<Rightarrow> nat \<Rightarrow> exn + Agent"
where
  "process_execution_queue env s =
     (if length (active_executions s) < max_concurrent_executions s \<and> execution_queue s \<noteq> []
      then
        (let qid = hd (execution_queue s);
             s1 = s\<lparr>execution_queue := tl (execution_queue s)\<rparr>
         in case find (\<lambda>a. execution_id (objects s1 ! a) = qid) (execution_history s1) of
              None \<Rightarrow> process_execution_queue env s1
            | Some a \<Rightarrow>
               (case start_execution env
                       (s1\<lparr>active_executions := AList.update qid a (active_executions s1)\<rparr>) a of
                  Inl e \<Rightarrow> Inl e
                | Inr s2 \<Rightarrow> process_execution_queue env s2))
      else Inr s)"
| "start_execution env s a =
     simulate_sap_execution env
       (s\<lparr>objects := (objects s)[a := (objects s ! a)\<lparr>status := RUNNING, current_step := 1\<rparr>]\<rparr>) a"
| "simulate_sap_execution env s a =
     (case run_to_completion env s a of
        Inl e \<Rightarrow> Inl e
      | Inr s1 \<Rightarrow> process_execution_queue env s1)"
  by pat_completeness auto

text \<open>
  Termination: every round of the loop takes one id off the queue, and nothing that a
  round calls puts one on. The second fact is about results of the function itself, so
  it is proved first on its domain.
\<close>

lemma queue_length_dom:
  "process_execution_queue_start_execution_simulate_sap_execution_dom (Inl (env, s)) \<Longrightarrow>
     process_execution_queue env s = Inr s' \<Longrightarrow>
     length (execution_queue s') \<le> length (execution_queue s)"
  "process_execution_queue_start_execution_simulate_sap_execution_dom (Inr (Inl (env, s, a))) \<Longrightarrow>
     start_execution env s a = Inr s' \<Longrightarrow>
     length (execution_queue s') \<le> length (execution_queue s)"
  "process_execution_queue_start_execution_simulate_sap_execution_dom (Inr (Inr (env, s, a))) \<Longrightarrow>
     simulate_sap_execution env s a = Inr s' \<Longrightarrow>
     length (execution_queue s') \<le> length (execution_queue s)"
proof (induct env s and env s a and env s a arbitrary: s' and s' and s'
    rule: process_execution_queue_start_execution_simulate_sap_execution.pinduct)
  case (1 env s)
  show ?case
  proof (cases "length (active_executions s) < max_concurrent_executions s \<and> execution_queue s \<noteq> []")
    case False
    with 1(1,5) show ?thesis by (simp add: process_execution_queue.psimps)
  next
    case True
    let ?s1 = "s\<lparr>execution_queue := tl (execution_queue s)\<rparr>"
    let ?qid = "hd (execution_queue s)"
    show ?thesis
    proof (cases "find (\<lambda>a. execution_id (objects ?s1 ! a) = ?qid) (execution_history ?s1)")
      case None
      with True 1(1,5) have "process_execution_queue env ?s1 = Inr s'"
        by (simp add: process_execution_queue.psimps Let_def)
      from 1(2)[OF True refl refl None this] show ?thesis by simp
    next
      case (Some a)
      let ?s1' = "?s1\<lparr>active_executions := AList.update ?qid a (active_executions ?s1)\<rparr>"
      from True Some 1(1,5) obtain s2 where
        s2: "start_execution env ?s1' a = Inr s2" and r: "process_execution_queue env s2 = Inr s'"
        by (auto simp: process_execution_queue.psimps Let_def split: sum.splits)
      from 1(3)[OF True refl refl Some s2]
      have "length (execution_queue s2) \<le> length (execution_queue ?s1')" .
      moreover from 1(4)[OF True refl refl Some s2 r]
      have "length (execution_queue s') \<le> length (execution_queue s2)" .
      ultimately show ?thesis by simp
    qed
  qed
next
  case (2 env s a)
  from 2(1,3) have "simulate_sap_execution env
       (s\<lparr>objects := (objects s)[a := (objects s ! a)\<lparr>status := RUNNING, current_step := 1\<rparr>]\<rparr>) a
       = Inr s'"
    by (simp add: start_execution.psimps)
  from 2(2)[OF this] show ?case by simp
next
  case (3 env s a)
  from 3(1,3) obtain s1 where s1: "run_to_completion env s a = Inr s1"
    and r: "process_execution_queue env s1 = Inr s'"
    by (auto simp: simulate_sap_execution.psimps split: sum.splits)
  from 3(2)[OF s1 r] run_to_completion_queue[OF s1] show ?case by simp
qed

termination process_execution_queue
proof (relation "measure (\<lambda>x. case x of
      Inl (env, s) \<Rightarrow> 3 * length (execution_queue s)
    | Inr (Inl (env, s, a)) \<Rightarrow> 3 * length (execution_queue s) + 2
    | Inr (Inr (env, s, a)) \<Rightarrow> 3 * length (execution_queue s) + 1)", goal_cases)
  case 1
  show ?case by simp
next
  case (2 env s x xa)
  then show ?case by (cases "execution_queue s") auto
next
  case (3 env s x xa x2)
  then show ?case by (cases "execution_queue s") auto
next
  case (4 env s x xa x2 b)
  from queue_length_dom(2)[OF 4(6) 4(5)] 4(1,3) show ?case
    by (cases "execution_queue s") auto
next
  case (5 env s a)
  show ?case by simp
next
  case (6 env s a b)
  from run_to_completion_queue[OF 6(1)] show ?case by simp
qed

declare process_execution_queue.simps [simp del]

subsection \<open>Operations\<close>

text \<open>
  A test case is a dict of strings. The execution id, which the source builds from the
  clock and a random integer, is an argument: the caller of the model chooses the id the
  environment would have produced.
\<close>

type_synonym test_case = "(string \<times> string) list"

definition dict_get :: "('k \<times> 'v) list \<Rightarrow> 'k \<Rightarrow> 'v \<Rightarrow> 'v" where
  "dict_get d k dflt = (case map_of d k of None \<Rightarrow> dflt | Some v \<Rightarrow> v)"

definition create_test_execution :: "Env \<Rightarrow> Agent \<Rightarrow> test_case \<Rightarrow> string \<Rightarrow> nat \<times> Agent" where
  "create_test_execution env s tc new_id =
     (let transaction' = dict_get tc ''transaction_code'' (dict_get tc ''transaction'' ''ME21N'');
          steps = generate_execution_steps transaction';
          (now', w') = datetime_now env (world s);
          execution = \<lparr>execution_id = new_id, transaction = transaction', status = QUEUED,
             result = None, start_time = now', end_time = None, duration_seconds = None,
             current_step = 0, total_steps = length steps, execution_steps = steps,
             auto_healing = None\<rparr>;
          a = length (objects s)
      in (a, s\<lparr>objects := objects s @ [execution],
               active_executions := AList.update new_id a (active_executions s),
               world := w'\<rparr>))"

text \<open>
  \<open>execute_single_test\<close>: the answer is \<open>None\<close> for an empty test case, else the
  execution id and the status string of the response.
\<close>

definition execute_single_test ::
  "Env \<Rightarrow> Agent \<Rightarrow> test_case \<Rightarrow> string \<Rightarrow> exn + ((string \<times> string) option \<times> Agent)" where
  "execute_single_test env s tc new_id =
     (if tc = [] then Inr (None, s)
      else
        (let (a, s1) = create_test_execution env s tc new_id
         in if length (active_executions s1) < max_concurrent_executions s1
            then then_do (start_execution env s1 a) (\<lambda>s2.
                   Inr (Some (execution_id (objects s2 ! a), ''running''), s2))
            else Inr (Some (execution_id (objects s1 ! a), ''queued''),
                      s1\<lparr>execution_queue := execution_queue s1 @ [execution_id (objects s1 ! a)]\<rparr>)))"

text \<open>The loop of \<open>execute_test_suite\<close> over the test cases, collecting the executions.\<close>

fun submit_all :: "Env \<Rightarrow> Agent \<Rightarrow> (test_case \<times> string) list \<Rightarrow> exn + (nat list \<times> Agent)" where
  "submit_all env s [] = Inr ([], s)"
| "submit_all env s ((tc, new_id) # rest) =
     (let (a, s1) = create_test_execution env s tc new_id
      in if length (active_executions s1) \<ge> max_concurrent_executions s1
         then (case submit_all env
                      (s1\<lparr>execution_queue := execution_queue s1 @ [execution_id (objects s1 ! a)]\<rparr>)
                      rest of
                 Inl e \<Rightarrow> Inl e
               | Inr (as, s') \<Rightarrow> Inr (a # as, s'))
         else (case start_execution env s1 a of
                 Inl e \<Rightarrow> Inl e
               | Inr s2 \<Rightarrow>
                  (case submit_all env s2 rest of
                     Inl e \<Rightarrow> Inl e
                   | Inr (as, s') \<Rightarrow> Inr (a # as, s'))))"

definition execute_test_suite ::
  "Env \<Rightarrow> Agent \<Rightarrow> (test_case \<times> string) list
     \<Rightarrow> exn + ((string \<times> ExecutionStatus) list option \<times> Agent)" where
  "execute_test_suite env s test_cases =
     (if test_cases = [] then Inr (None, s)
      else then_do (submit_all env s test_cases) (\<lambda>(as, s').
             Inr (Some (map (\<lambda>a. (execution_id (objects s' ! a), status (objects s' ! a))) as), s')))"

text \<open>
  \<open>cancel_execution\<close> answers with the success flag and the text of the response.
  \<open>list.remove\<close> takes out the first occurrence.
\<close>

definition cancel_execution :: "Env \<Rightarrow> Agent \<Rightarrow> string \<Rightarrow> (bool \<times> string) \<times> Agent" where
  "cancel_execution env s eid =
     (if eid \<in> set (execution_queue s)
      then ((True, ''Execution '' @ eid @ '' removed from queue''),
            s\<lparr>execution_queue := remove1 eid (execution_queue s)\<rparr>)
      else (case map_of (active_executions s) eid of
              Some a \<Rightarrow>
                (let (now', w') = datetime_now env (world s);
                     execution = (objects s ! a)
                        \<lparr>status := CANCELLED, result := Some SKIPPED, end_time := Some now'\<rparr>
                 in ((True, ''Execution '' @ eid @ '' cancelled''),
                     s\<lparr>objects := (objects s)[a := execution], world := w',
                       execution_history := execution_history s @ [a],
                       active_executions := AList.delete eid (active_executions s)\<rparr>))
            | None \<Rightarrow>
                ((False, ''Execution '' @ eid @ '' not found or cannot be cancelled''), s)))"

text \<open>
  \<open>get_execution_status\<close>: the execution whose fields the response reports, or
  \<open>None\<close> for the not-found response.
\<close>

definition get_execution_status :: "Agent \<Rightarrow> string \<Rightarrow> TestExecution option" where
  "get_execution_status s eid =
     (case map_of (active_executions s) eid of
        Some a \<Rightarrow> Some (objects s ! a)
      | None \<Rightarrow>
          map_option (\<lambda>a. objects s ! a)
            (find (\<lambda>a. execution_id (objects s ! a) = eid) (execution_history s)))"

text \<open>The operations that change the agent, and a run of several of them.\<close>

datatype operation =
    Execute_single test_case string
  | Execute_suite "(test_case \<times> string) list"
  | Cancel string

fun perform :: "Env \<Rightarrow> Agent \<Rightarrow> operation \<Rightarrow> exn + Agent" where
  "perform env s (Execute_single tc new_id) =
     (case execute_single_test env s tc new_id of Inl e \<Rightarrow> Inl e | Inr (r, s') \<Rightarrow> Inr s')"
| "perform env s (Execute_suite tcs) =
     (case execute_test_suite env s tcs of Inl e \<Rightarrow> Inl e | Inr (r, s') \<Rightarrow> Inr s')"
| "perform env s (Cancel eid) = Inr (snd (cancel_execution env s eid))"

fun perform_all :: "Env \<Rightarrow> Agent \<Rightarrow> operation list \<Rightarrow> exn + Agent" where
  "perform_all env s [] = Inr s"
| "perform_all env s (op # ops) =
     (case perform env s op of Inl e \<Rightarrow> Inl e | Inr s' \<Rightarrow> perform_all env s' ops)"

section \<open>Concrete inputs\<close>

text \<open>
  A parser that knows two strings, as \<open>datetime.fromisoformat\<close> reads them: one with a
  UTC offset (aware) and one without (naive); anything else is a ValueError.
\<close>

definition parse0 :: fromisoformat where
  "parse0 s = (if s = ''2020-01-01T00:00:00+00:00'' then Some (Aware 0)
               else if s = ''2020-01-01T00:00:00'' then Some (Naive 0) else None)"

definition msg0 :: "string option \<Rightarrow> AgentMessage" where
  "msg0 e = \<lparr>message_id = ''m1'', from_agent = ''a'', to_agent = ''b'', message_type = REQUEST,
     priority = MEDIUM, timestamp = ''t'', payload = [], correlation_id = None, reply_to = None,
     expires_at = e\<rparr>"

definition clock0 :: "nat \<Rightarrow> string" where
  "clock0 k = ''2025-01-01T00:00:00''"

definition metrics0 :: AgentMetrics where
  "metrics0 = (AgentMetrics_new ''a'')\<lparr>total_messages_sent := 3, total_messages_received := 1,
     average_processing_time := 2\<rparr>"

definition monitor0 :: AgentMonitor where
  "monitor0 = (AgentMonitor_init 1000)\<lparr>agent_metrics := [''a'' \<mapsto> metrics0]\<rparr>"


text \<open>A monitor on which the agent \<open>x\<close> has been registered.\<close>

definition monitor_registered :: AgentMonitor where
  "monitor_registered = register_agent_monitor clock0 (AgentMonitor_init 1000) ''x'' ''agent x'' [''testing'']"
text \<open>
  The failure probability as the specification words it: the baseline rate, times 1.5
  for a critical step, times 0.2 for the first two steps, and the baseline itself for a
  step that is neither.
\<close>

definition claimed_failure_probability :: "string \<Rightarrow> ExecutionStep \<Rightarrow> nat \<Rightarrow> rat" where
  "claimed_failure_probability transaction' step step_index =
     (let rate = (if description step \<in> set critical_steps
                  then base_failure_rate transaction' * (15 / 10)
                  else base_failure_rate transaction')
      in if step_index < 2 then rate * (2 / 10) else rate)"

text \<open>An environment whose every draw is the same number, and the world at the start.\<close>

definition env_const :: "rat \<Rightarrow> Env" where
  "env_const u = \<lparr>random_values = (\<lambda>k. u), clock_values = (\<lambda>k. ''2025-01-01T00:00:00'')\<rparr>"

definition world0 :: World where
  "world0 = \<lparr>rand_calls = 0, clock_calls = 0\<rparr>"

text \<open>
  An agent whose limit of concurrent executions is set to one, and the same agent after
  \<open>execute_single_test\<close> on a test case for the unknown transaction \<open>ZZ99\<close>: the
  new execution \<open>exec_1\<close> is at address 0 and waits in the queue.
\<close>

definition tc_unknown :: test_case where
  "tc_unknown = [(''transaction_code'', ''ZZ99'')]"

definition agent_cap1 :: Agent where
  "agent_cap1 = Agent_init\<lparr>max_concurrent_executions := 1\<rparr>"

definition exec_1 :: TestExecution where
  "exec_1 =
     \<lparr>execution_id = ''exec_1'', transaction = ''ZZ99'', status = QUEUED, result = None,
      start_time = ''2025-01-01T00:00:00'', end_time = None, duration_seconds = None,
      current_step = 0, total_steps = 6, execution_steps = generate_execution_steps ''ZZ99'',
      auto_healing = None\<rparr>"

definition agent_queued :: Agent where
  "agent_queued =
     \<lparr>active_executions = [(''exec_1'', 0)], execution_queue = [''exec_1''],
      execution_history = [], max_concurrent_executions = 1, objects = [exec_1],
      world = \<lparr>rand_calls = 0, clock_calls = 1\<rparr>\<rparr>"

text \<open>
  The limit is then raised to three and a second test case is submitted:
  \<open>execute_single_test\<close> creates \<open>exec_2\<close> at address 1 and starts it at once.
  \<open>agent_running\<close> is the agent when \<open>_start_execution\<close> has marked \<open>exec_2\<close> as
  running, with \<open>exec_1\<close> still waiting.
\<close>

definition exec_2 :: TestExecution where
  "exec_2 = exec_1\<lparr>execution_id := ''exec_2'', status := RUNNING, current_step := 1\<rparr>"

definition agent_running :: Agent where
  "agent_running =
     \<lparr>active_executions = [(''exec_1'', 0), (''exec_2'', 1)], execution_queue = [''exec_1''],
      execution_history = [], max_concurrent_executions = 3, objects = [exec_1, exec_2],
      world = \<lparr>rand_calls = 0, clock_calls = 2\<rparr>\<rparr>"

text \<open>
  The loop of \<open>exec_2\<close> on entry, the third step (index 2, \<open>Enter transaction data\<close>)
  as the loop body marks it, the error selected for it when the draw is 0.1, and an
  environment whose first three draws are 0.1 and all later ones 0.99: the step fails and
  no healing strategy succeeds.
\<close>

definition ls_example :: LoopState where
  "ls_example = \<lparr>ls_execution = exec_2, ls_total_duration = 0,
     ls_current_time = ''2025-01-01T00:00:00'', ls_world = world0\<rparr>"

definition step_example :: ExecutionStep where
  "step_example = (new_step 3 ''Enter transaction data'')
     \<lparr>step_status := ''running'', step_start_time := Some ''2025-01-01T00:00:00''\<rparr>"

definition error_example :: ErrorInfo where
  "error_example =
     \<lparr>err_code = ''ME_APPROVAL_TIMEOUT'',
      err_message = ''Approval workflow timeout - Enter transaction data requires manager approval'',
      err_details = ''Workflow approval timeout'',
      err_pattern = ''approval_timeout''\<rparr>"

definition env_unhealed :: Env where
  "env_unhealed = \<lparr>random_values = (\<lambda>k. if k < 3 then 1 / 10 else 99 / 100),
     clock_values = (\<lambda>k. ''2025-01-01T00:00:00'')\<rparr>"

section \<open>The invariant of an execution\<close>

definition is_terminal :: "ExecutionStatus \<Rightarrow> bool" where
  "is_terminal st = (st = COMPLETED \<or> st = FAILED \<or> st = CANCELLED)"

text \<open>
  The three parts of the invariant: the step counter is within the number of steps (it is
  a natural number, so not negative); the result is set exactly when the status is
  terminal; the end time is set exactly when the status is terminal.
\<close>

definition execution_invariant :: "TestExecution \<Rightarrow> bool" where
  "execution_invariant e =
     (current_step e \<le> total_steps e
      \<and> (result e \<noteq> None) = is_terminal (status e)
      \<and> (end_time e \<noteq> None) = is_terminal (status e))"

text \<open>
  What \<open>_create_test_execution\<close> establishes besides: \<open>total_steps\<close> is the length of
  the step list, and there is at least one step.
\<close>

definition well_formed_execution :: "TestExecution \<Rightarrow> bool" where
  "well_formed_execution e =
     (execution_invariant e
      \<and> total_steps e = length (execution_steps e)
      \<and> 0 < total_steps e)"

text \<open>
  The execution that \<open>_start_execution\<close> hands to \<open>_simulate_sap_execution\<close>: its
  shape is right and it is marked as running (its result and end time may be left over
  from an earlier run).
\<close>

definition running_shape :: "TestExecution \<Rightarrow> bool" where
  "running_shape e = (total_steps e = length (execution_steps e) \<and> 0 < total_steps e
                      \<and> status e = RUNNING)"

definition all_well_formed :: "Agent \<Rightarrow> bool" where
  "all_well_formed s = list_all well_formed_execution (objects s)"

definition ready_to_run :: "Agent \<Rightarrow> nat \<Rightarrow> bool" where
  "ready_to_run s a =
     ((\<forall>b < length (objects s). b \<noteq> a \<longrightarrow> well_formed_execution (objects s ! b))
      \<and> (a < length (objects s) \<longrightarrow> running_shape (objects s ! a)))"

section \<open>The router: expiry and failed deliveries\<close>

lemma replace_Z_example: "replace_Z ''2020-01-01T00:00:00Z'' = ''2020-01-01T00:00:00+00:00''"
  by (simp add: replace_Z_def)

text \<open>
  What does hold for expiry: a non-empty \<open>expires_at\<close> that parses to a naive time
  before \<open>now\<close> makes \<open>send_message\<close> return false, count the message as expired
  and leave history and handlers alone.
\<close>

lemma expired_naive_dropped:
  assumes "expires_at message = Some s" and "s \<noteq> []"
    and "parse (replace_Z s) = Some (Naive t)" and "t < now"
  shows "send_message parse now r message = (False, count_expired r)"
  using assms by (simp add: send_message_def is_expired_def)

text \<open>
  C6. The claim is that every message whose \<open>expires_at\<close> lies in the past is dropped
  and counted as expired. The code parses \<open>expires_at\<close> after replacing \<open>Z\<close> by
  \<open>+00:00\<close>, which yields an aware time, and compares it with the naive
  \<open>datetime.now()\<close>; the TypeError of that comparison is swallowed by the bare
  \<open>except\<close>. So whenever the parsed expiry is aware, however far in the past, the
  message is not expired for \<open>send_message\<close>: the expired counter stays, and a
  registered handler is invoked with the message.
\<close>

theorem expired_aware_timestamp_delivered:
  assumes "expires_at message = Some s" and "parse (replace_Z s) = Some (Aware t)"
  shows "\<not> is_expired parse now message
     \<and> expired (delivery_stats (snd (send_message parse now r message))) = expired (delivery_stats r)
     \<and> (\<forall>h. delivery_handlers r (to_agent message) = Some h \<longrightarrow>
           handler_calls (snd (send_message parse now r message))
             = handler_calls r @ [(to_agent message, message)]
         \<and> fst (send_message parse now r message) = (h message = Returns True))"
proof -
  have ne: "\<not> is_expired parse now message"
    using assms by (simp add: is_expired_def)
  show ?thesis
    using ne
    by (auto simp: send_message_def add_to_history_def count_failed_def count_delivered_def
        Let_def split: handler_outcome.splits option.splits)
qed

theorem expired_aware_timestamp_delivered_witness:
  "expires_at (msg0 (Some ''2020-01-01T00:00:00Z'')) = Some ''2020-01-01T00:00:00Z''
   \<and> parse0 (replace_Z ''2020-01-01T00:00:00Z'') = Some (Aware 0)
   \<and> delivery_handlers (register_agent MessageRouter_init ''b'' (\<lambda>_. Returns True)) ''b''
        = Some (\<lambda>_. Returns True)
   \<and> send_message parse0 1000000 (register_agent MessageRouter_init ''b'' (\<lambda>_. Returns True))
        (msg0 (Some ''2020-01-01T00:00:00Z''))
     = (True, \<lparr>delivery_handlers = [''b'' \<mapsto> (\<lambda>_. Returns True)],
          message_history = [msg0 (Some ''2020-01-01T00:00:00Z'')],
          delivery_stats = \<lparr>sent = 0, delivered = 1, failed = 0, expired = 0\<rparr>,
          handler_calls = [(''b'', msg0 (Some ''2020-01-01T00:00:00Z''))]\<rparr>)"
  using expired_aware_timestamp_delivered[of "msg0 (Some ''2020-01-01T00:00:00Z'')"
      "''2020-01-01T00:00:00Z''" parse0 0 1000000
      "register_agent MessageRouter_init ''b'' (\<lambda>_. Returns True)"]
  by (simp add: msg0_def parse0_def replace_Z_def send_message_def is_expired_def
      register_agent_def MessageRouter_init_def add_to_history_def append_bounded_def
      count_delivered_def Let_def)

text \<open>
  C7. For a message that is not expired: with no handler registered for
  \<open>to_agent\<close>, \<open>send_message\<close> invokes no handler (the trace of handler calls is
  unchanged), adds one to the failed counter and returns false; with a registered handler
  that raises, \<open>send_message\<close> still returns a value, namely false, and adds one to
  the failed counter.
\<close>

theorem send_message_failure_paths:
  assumes "\<not> is_expired parse now message"
  shows "(delivery_handlers r (to_agent message) = None \<longrightarrow>
            fst (send_message parse now r message) = False
          \<and> handler_calls (snd (send_message parse now r message)) = handler_calls r
          \<and> failed (delivery_stats (snd (send_message parse now r message)))
              = failed (delivery_stats r) + 1)
       \<and> (\<forall>h. delivery_handlers r (to_agent message) = Some h \<and> h message = Raises \<longrightarrow>
            fst (send_message parse now r message) = False
          \<and> failed (delivery_stats (snd (send_message parse now r message)))
              = failed (delivery_stats r) + 1)"
  using assms
  by (auto simp: send_message_def add_to_history_def count_failed_def Let_def)

theorem send_message_failure_paths_witness:
  "\<not> is_expired parse0 5 (msg0 None)
   \<and> delivery_handlers MessageRouter_init (to_agent (msg0 None)) = None
   \<and> send_message parse0 5 MessageRouter_init (msg0 None)
       = (False, MessageRouter_init\<lparr>message_history := [msg0 None],
            delivery_stats := \<lparr>sent = 0, delivered = 0, failed = 1, expired = 0\<rparr>\<rparr>)
   \<and> delivery_handlers (register_agent MessageRouter_init ''b'' (\<lambda>_. Raises))
        (to_agent (msg0 None)) = Some (\<lambda>_. Raises)
   \<and> fst (send_message parse0 5 (register_agent MessageRouter_init ''b'' (\<lambda>_. Raises))
        (msg0 None)) = False
   \<and> failed (delivery_stats (snd (send_message parse0 5
        (register_agent MessageRouter_init ''b'' (\<lambda>_. Raises)) (msg0 None)))) = 1"
  using send_message_failure_paths[of parse0 5 "msg0 None" MessageRouter_init]
    send_message_failure_paths[of parse0 5 "msg0 None"
      "register_agent MessageRouter_init ''b'' (\<lambda>_. Raises)"]
  by (simp add: msg0_def send_message_def is_expired_def register_agent_def
      MessageRouter_init_def add_to_history_def append_bounded_def count_failed_def Let_def)



section \<open>The monitor: running average and logging without registration\<close>

lemma update_agent_state_metrics_None:
  "agent_metrics m a = None \<Longrightarrow> agent_metrics (update_agent_state clock m a st) = agent_metrics m"
  by (simp add: update_agent_state_def broadcast_state_change_def get_timestamp_def Let_def)

lemma update_agent_state_states:
  "agent_states (update_agent_state clock m a st) a = Some st"
  by (simp add: update_agent_state_def broadcast_state_change_def get_timestamp_def Let_def
      split: option.splits prod.splits)

lemma update_agent_state_metrics_Some:
  "agent_metrics m a = Some met \<Longrightarrow>
   agent_metrics (update_agent_state clock m a st) a =
     Some (met\<lparr>current_state := st, last_activity := Some (clock (clock_reads m))\<rparr>)"
  by (simp add: update_agent_state_def broadcast_state_change_def get_timestamp_def Let_def
      split: option.splits prod.splits)

text \<open>
  C8. For an agent with a metrics record, \<open>log_processing_complete\<close> leaves the two
  message counters as they are and, with \<open>n\<close> their sum at the call, sets the average
  to \<open>(prev_avg * (n - 1) + processing_time) / n\<close> when \<open>n\<close> is positive and to
  \<open>processing_time\<close> when \<open>n\<close> is zero (floats read as rationals).
\<close>

theorem log_processing_complete_average:
  assumes "agent_metrics m a = Some met"
    and "n = total_messages_sent met + total_messages_received met"
  shows "\<exists>met'. agent_metrics (log_processing_complete clock m a task_type processing_time result_summary) a = Some met'
     \<and> total_messages_sent met' + total_messages_received met' = n
     \<and> (0 < n \<longrightarrow> average_processing_time met' =
           (average_processing_time met * of_int (n - 1) + processing_time) / of_int n)
     \<and> (n = 0 \<longrightarrow> average_processing_time met' = processing_time)"
  using assms update_agent_state_metrics_Some[OF assms(1), of clock COMPLETE]
  by (auto simp: log_processing_complete_def get_timestamp_def Let_def split: prod.splits)

theorem log_processing_complete_average_witness:
  "agent_metrics monitor0 ''a'' = Some metrics0
   \<and> (4::int) = total_messages_sent metrics0 + total_messages_received metrics0
   \<and> (\<exists>met'. agent_metrics (log_processing_complete clock0 monitor0 ''a'' ''task'' 10 []) ''a''
          = Some met' \<and> average_processing_time met' = 4)
   \<and> agent_metrics (monitor0\<lparr>agent_metrics := [''a'' \<mapsto> AgentMetrics_new ''a'']\<rparr>) ''a''
        = Some (AgentMetrics_new ''a'')
   \<and> (\<exists>met'. agent_metrics (log_processing_complete clock0
          (monitor0\<lparr>agent_metrics := [''a'' \<mapsto> AgentMetrics_new ''a'']\<rparr>) ''a'' ''task'' 10 []) ''a''
          = Some met' \<and> average_processing_time met' = 10)"
  using log_processing_complete_average[of monitor0 "''a''" metrics0 4 clock0 "''task''" 10 "[]"]
    log_processing_complete_average[of "monitor0\<lparr>agent_metrics := [''a'' \<mapsto> AgentMetrics_new ''a'']\<rparr>"
      "''a''" "AgentMetrics_new ''a''" 0 clock0 "''task''" 10 "[]"]
  by (auto simp: monitor0_def metrics0_def AgentMetrics_new_def AgentMonitor_init_def)

text \<open>
  The path of an agent that has a metrics record: \<open>_update_agent_state\<close> finds the
  record and writes the new state and the time of the call into it, before the counter
  is incremented.
\<close>

lemma log_message_registered_record_state:
  assumes "agent_metrics m a = Some met"
  shows "(\<exists>m' met'. log_message_sent clock m a b mid mtype psize = Inr m'
            \<and> agent_metrics m' a = Some met'
            \<and> total_messages_sent met' = total_messages_sent met + 1
            \<and> current_state met' = COMMUNICATING
            \<and> last_activity met' = Some (clock (Suc (clock_reads m)))
            \<and> agent_states m' a = Some COMMUNICATING)
       \<and> (\<exists>m' met'. log_message_received clock m a b mid mtype psize = Inr m'
            \<and> agent_metrics m' a = Some met'
            \<and> total_messages_received met' = total_messages_received met + 1
            \<and> current_state met' = PROCESSING
            \<and> last_activity met' = Some (clock (Suc (clock_reads m)))
            \<and> agent_states m' a = Some PROCESSING)"
proof -
  let ?m0 = "m\<lparr>clock_reads := clock_reads m + 1\<rparr>"
  have m0: "agent_metrics ?m0 a = Some met" using assms by simp
  show ?thesis
    using update_agent_state_metrics_Some[OF m0, of clock COMMUNICATING]
      update_agent_state_metrics_Some[OF m0, of clock PROCESSING]
    by (simp add: log_message_sent_def log_message_received_def metrics_subscript_def
        relationships_add_def get_timestamp_def Let_def
        update_agent_state_states)
qed

text \<open>
  C9. On a monitor with no metrics record for the agent id, every logging operation
  returns normally. \<open>log_message_sent\<close> and \<open>log_message_received\<close> create the
  record and set its sent (received) counter to one, and the agent's entry in
  \<open>agent_states\<close> becomes communicating (processing); no subscript on
  \<open>agent_metrics\<close> raises KeyError. The state of the record is not updated:
  \<open>_update_agent_state\<close> runs before the record exists, so the new record keeps
  \<open>current_state\<close> idle and \<open>last_activity\<close> None and disagrees with
  \<open>agent_states\<close>, while for an agent that has a record the same call writes both
  fields (lemma \<open>log_message_registered_record_state\<close>). \<open>log_processing_start\<close>,
  \<open>log_processing_complete\<close> and \<open>log_processing_error\<close> set the entry of
  \<open>agent_states\<close> and create no record.
\<close>

theorem log_message_unregistered_record_state:
  assumes "agent_metrics m a = None"
  shows "(\<exists>m' met. log_message_sent clock m a b mid mtype psize = Inr m'
            \<and> agent_metrics m' a = Some met
            \<and> met = (AgentMetrics_new a)\<lparr>total_messages_sent := 1\<rparr>
            \<and> current_state met = IDLE \<and> last_activity met = None
            \<and> agent_states m' a = Some COMMUNICATING)
       \<and> (\<exists>m' met. log_message_received clock m a b mid mtype psize = Inr m'
            \<and> agent_metrics m' a = Some met
            \<and> met = (AgentMetrics_new a)\<lparr>total_messages_received := 1\<rparr>
            \<and> current_state met = IDLE \<and> last_activity met = None
            \<and> agent_states m' a = Some PROCESSING)
       \<and> agent_metrics (log_processing_start clock m a task_type task_details) a = None
       \<and> agent_states (log_processing_start clock m a task_type task_details) a = Some PROCESSING
       \<and> agent_metrics (log_processing_complete clock m a task_type processing_time result_summary) a = None
       \<and> agent_states (log_processing_complete clock m a task_type processing_time result_summary) a
            = Some COMPLETE
       \<and> agent_metrics (log_processing_error clock m a task_type err_msg) a = None
       \<and> agent_states (log_processing_error clock m a task_type err_msg) a
            = Some STATE_ERROR"
  using assms
  by (simp add: log_message_sent_def log_message_received_def log_processing_start_def
      log_processing_complete_def log_processing_error_def metrics_subscript_def
      relationships_add_def get_timestamp_def Let_def AgentMetrics_new_def
      update_agent_state_metrics_None update_agent_state_states)

theorem log_message_unregistered_record_state_witness:
  "(agent_metrics (AgentMonitor_init 1000) ''x'' = None
    \<and> (\<exists>m' met. log_message_sent clock0 (AgentMonitor_init 1000) ''x'' ''y'' ''m1'' ''request'' 10 = Inr m'
         \<and> agent_metrics m' ''x'' = Some met
         \<and> met = (AgentMetrics_new ''x'')\<lparr>total_messages_sent := 1\<rparr>
         \<and> current_state met = IDLE \<and> last_activity met = None
         \<and> agent_states m' ''x'' = Some COMMUNICATING)
    \<and> (\<exists>m' met. log_message_received clock0 (AgentMonitor_init 1000) ''x'' ''y'' ''m1'' ''request'' 10 = Inr m'
         \<and> agent_metrics m' ''x'' = Some met
         \<and> met = (AgentMetrics_new ''x'')\<lparr>total_messages_received := 1\<rparr>
         \<and> current_state met = IDLE \<and> last_activity met = None
         \<and> agent_states m' ''x'' = Some PROCESSING)
    \<and> agent_metrics (log_processing_start clock0 (AgentMonitor_init 1000) ''x'' ''task'' []) ''x'' = None
    \<and> agent_states (log_processing_start clock0 (AgentMonitor_init 1000) ''x'' ''task'' []) ''x''
         = Some PROCESSING
    \<and> agent_metrics (log_processing_complete clock0 (AgentMonitor_init 1000) ''x'' ''task'' 10 []) ''x''
         = None
    \<and> agent_states (log_processing_complete clock0 (AgentMonitor_init 1000) ''x'' ''task'' 10 []) ''x''
         = Some COMPLETE
    \<and> agent_metrics (log_processing_error clock0 (AgentMonitor_init 1000) ''x'' ''task'' ''boom'') ''x''
         = None
    \<and> agent_states (log_processing_error clock0 (AgentMonitor_init 1000) ''x'' ''task'' ''boom'') ''x''
         = Some STATE_ERROR)
   \<and> (agent_metrics monitor_registered ''x'' = Some (AgentMetrics_new ''x'')
    \<and> (\<exists>m' met. log_message_sent clock0 monitor_registered ''x'' ''y'' ''m1'' ''request'' 10 = Inr m'
         \<and> agent_metrics m' ''x'' = Some met
         \<and> total_messages_sent met = 1
         \<and> current_state met = COMMUNICATING
         \<and> last_activity met = Some ''2025-01-01T00:00:00''
         \<and> agent_states m' ''x'' = Some COMMUNICATING))"
proof (rule conjI)
  have "agent_metrics (AgentMonitor_init 1000) ''x'' = None"
    by (simp add: AgentMonitor_init_def)
  from log_message_unregistered_record_state[OF this, of clock0 "''y''" "''m1''" "''request''" 10
      "''task''" "[]" 10 "[]" "''boom''"] this
  show "agent_metrics (AgentMonitor_init 1000) ''x'' = None
    \<and> (\<exists>m' met. log_message_sent clock0 (AgentMonitor_init 1000) ''x'' ''y'' ''m1'' ''request'' 10 = Inr m'
         \<and> agent_metrics m' ''x'' = Some met
         \<and> met = (AgentMetrics_new ''x'')\<lparr>total_messages_sent := 1\<rparr>
         \<and> current_state met = IDLE \<and> last_activity met = None
         \<and> agent_states m' ''x'' = Some COMMUNICATING)
    \<and> (\<exists>m' met. log_message_received clock0 (AgentMonitor_init 1000) ''x'' ''y'' ''m1'' ''request'' 10 = Inr m'
         \<and> agent_metrics m' ''x'' = Some met
         \<and> met = (AgentMetrics_new ''x'')\<lparr>total_messages_received := 1\<rparr>
         \<and> current_state met = IDLE \<and> last_activity met = None
         \<and> agent_states m' ''x'' = Some PROCESSING)
    \<and> agent_metrics (log_processing_start clock0 (AgentMonitor_init 1000) ''x'' ''task'' []) ''x'' = None
    \<and> agent_states (log_processing_start clock0 (AgentMonitor_init 1000) ''x'' ''task'' []) ''x''
         = Some PROCESSING
    \<and> agent_metrics (log_processing_complete clock0 (AgentMonitor_init 1000) ''x'' ''task'' 10 []) ''x''
         = None
    \<and> agent_states (log_processing_complete clock0 (AgentMonitor_init 1000) ''x'' ''task'' 10 []) ''x''
         = Some COMPLETE
    \<and> agent_metrics (log_processing_error clock0 (AgentMonitor_init 1000) ''x'' ''task'' ''boom'') ''x''
         = None
    \<and> agent_states (log_processing_error clock0 (AgentMonitor_init 1000) ''x'' ''task'' ''boom'') ''x''
         = Some STATE_ERROR"
    by (rule conjI[rotated])
next
  show "agent_metrics monitor_registered ''x'' = Some (AgentMetrics_new ''x'')
    \<and> (\<exists>m' met. log_message_sent clock0 monitor_registered ''x'' ''y'' ''m1'' ''request'' 10 = Inr m'
         \<and> agent_metrics m' ''x'' = Some met
         \<and> total_messages_sent met = 1
         \<and> current_state met = COMMUNICATING
         \<and> last_activity met = Some ''2025-01-01T00:00:00''
         \<and> agent_states m' ''x'' = Some COMMUNICATING)"
    by (simp add: AgentMonitor_init_def monitor_registered_def register_agent_monitor_def
        log_message_sent_def update_agent_state_def broadcast_state_change_def
        metrics_subscript_def relationships_add_def get_timestamp_def Let_def AgentMetrics_new_def
        append_bounded_def clock0_def)
qed
section \<open>The test execution agent: failure probability\<close>

lemma base_ME21N: "base_failure_rate ''ME21N'' = 15 / 100"
  by (simp add: base_failure_rate_def sap_transaction_complexity_def)

text \<open>
  C5, as stated, fails on the code. For the transaction \<open>ME21N\<close> (baseline 0.15), the
  ninth step \<open>Validate input fields\<close> (index 8: not critical, not among the first
  two) and the draw 0.1, the claimed probability is the baseline, so the step should
  fail; \<open>_should_step_fail\<close> compares with 0.075 and the step does not fail.
\<close>

theorem should_step_fail_counterexample:
  "random_values (env_const (1 / 10)) (rand_calls world0)
      < claimed_failure_probability ''ME21N'' (new_step 9 ''Validate input fields'') 8
   \<and> \<not> fst (should_step_fail (env_const (1 / 10)) world0 ''ME21N''
              (new_step 9 ''Validate input fields'') 8)"
  by (simp add: should_step_fail_def step_failure_rate_def claimed_failure_probability_def
      random_random_def env_const_def world0_def new_step_def critical_steps_def base_ME21N
      Let_def)

text \<open>
  C5, amended. A step fails iff the draw is below the baseline rate of the transaction,
  times 1.5 for a step in the critical list and times 0.5 for any other step, and times
  0.2 on top of that for the first two steps. A step that is neither critical nor among
  the first two fails at half the baseline rate. One draw is taken.
\<close>

theorem should_step_fail_rate:
  "(fst (should_step_fail env w tx step i) \<longleftrightarrow>
      random_values env (rand_calls w)
        < base_failure_rate tx
            * (if description step \<in> set critical_steps then 3 / 2 else 1 / 2)
            * (if i < 2 then 1 / 5 else 1))
   \<and> (description step \<notin> set critical_steps \<and> 2 \<le> i \<longrightarrow>
        (fst (should_step_fail env w tx step i) \<longleftrightarrow>
           random_values env (rand_calls w) < base_failure_rate tx / 2))
   \<and> snd (should_step_fail env w tx step i) = w\<lparr>rand_calls := rand_calls w + 1\<rparr>"
  by (simp add: should_step_fail_def step_failure_rate_def random_random_def Let_def)

theorem should_step_fail_rate_witness:
  "description (new_step 9 ''Validate input fields'') \<notin> set critical_steps \<and> (2::nat) \<le> 8
   \<and> \<not> fst (should_step_fail (env_const (1 / 10)) world0 ''ME21N''
              (new_step 9 ''Validate input fields'') 8)
   \<and> fst (should_step_fail (env_const (7 / 100)) world0 ''ME21N''
              (new_step 9 ''Validate input fields'') 8)
   \<and> fst (should_step_fail (env_const (1 / 5)) world0 ''ME21N''
              (new_step 10 ''Save transaction'') 9)"
  using should_step_fail_rate[of "env_const (1 / 10)" world0 "''ME21N''"
          "new_step 9 ''Validate input fields''" 8]
        should_step_fail_rate[of "env_const (7 / 100)" world0 "''ME21N''"
          "new_step 9 ''Validate input fields''" 8]
        should_step_fail_rate[of "env_const (1 / 5)" world0 "''ME21N''"
          "new_step 10 ''Save transaction''" 9]
  by (simp add: env_const_def world0_def new_step_def critical_steps_def base_ME21N)

section \<open>The test execution agent: the wait queue\<close>

lemma steps_ZZ99: "generate_execution_steps ''ZZ99'' =
   [new_step 1 ''Login to SAP system'', new_step 2 ''Navigate to ZZ99 transaction'',
    new_step 3 ''Enter transaction data'', new_step 4 ''Validate input fields'',
    new_step 5 ''Save transaction'', new_step 6 ''Verify transaction completion'']"
  by (simp add: generate_execution_steps_def base_steps_def transaction_steps_def upt_rec eval_nat_numeral)

lemma agent_queued_reached:
  "execute_single_test (env_const (99 / 100)) agent_cap1 tc_unknown ''exec_1''
     = Inr (Some (''exec_1'', ''queued''), agent_queued)"
  by (simp add: execute_single_test_def create_test_execution_def agent_cap1_def Agent_init_def
      tc_unknown_def dict_get_def datetime_now_def env_const_def agent_queued_def exec_1_def
      steps_ZZ99 Let_def)

text \<open>
  C2. The claim is that cancelling a queued execution removes it from the queue, that it
  never runs, and that its final reported status is cancelled. In the code the branch for
  a queued id only removes the id from the queue and returns: the execution object is
  not touched, so \<open>get_execution_status\<close> goes on reporting its old status (queued for
  an execution that waits), and the execution stays in \<open>active_executions\<close>, where it
  counts against the limit, and never enters the history.
\<close>

theorem cancel_queued_keeps_status:
  assumes "eid \<in> set (execution_queue s)"
    and "map_of (active_executions s) eid = Some a"
  shows "cancel_execution env s eid
           = ((True, ''Execution '' @ eid @ '' removed from queue''),
              s\<lparr>execution_queue := remove1 eid (execution_queue s)\<rparr>)
       \<and> get_execution_status (snd (cancel_execution env s eid)) eid = Some (objects s ! a)
       \<and> objects (snd (cancel_execution env s eid)) = objects s
       \<and> active_executions (snd (cancel_execution env s eid)) = active_executions s
       \<and> execution_history (snd (cancel_execution env s eid)) = execution_history s"
  using assms by (simp add: cancel_execution_def get_execution_status_def)

theorem cancel_queued_keeps_status_witness:
  "''exec_1'' \<in> set (execution_queue agent_queued)
   \<and> map_of (active_executions agent_queued) ''exec_1'' = Some 0
   \<and> fst (cancel_execution (env_const (99 / 100)) agent_queued ''exec_1'')
        = (True, ''Execution exec_1 removed from queue'')
   \<and> execution_queue (snd (cancel_execution (env_const (99 / 100)) agent_queued ''exec_1'')) = []
   \<and> map_option status (get_execution_status
         (snd (cancel_execution (env_const (99 / 100)) agent_queued ''exec_1'')) ''exec_1'')
        = Some QUEUED"
  using cancel_queued_keeps_status[of "''exec_1''" agent_queued 0 "env_const (99 / 100)"]
  by (simp add: agent_queued_def exec_1_def get_execution_status_def cancel_execution_def)

lemma process_execution_queue_full:
  "\<not> length (active_executions s) < max_concurrent_executions s \<Longrightarrow>
   process_execution_queue env s = Inr s"
  by (simp add: process_execution_queue.simps)

lemma find_None_history:
  "\<forall>a \<in> set h. f a \<noteq> q \<Longrightarrow> find (\<lambda>a. f a = q) h = None"
  by (simp add: find_None_iff)

lemma process_execution_queue_drops:
  "length (active_executions s) < max_concurrent_executions s \<Longrightarrow>
   execution_queue s = q \<Longrightarrow>
   \<forall>a \<in> set (execution_history s). execution_id (objects s ! a) \<notin> set q \<Longrightarrow>
   process_execution_queue env s = Inr (s\<lparr>execution_queue := []\<rparr>)"
proof (induction q arbitrary: s)
  case Nil
  then show ?case by (simp add: process_execution_queue.simps)
next
  case (Cons x q)
  let ?s1 = "s\<lparr>execution_queue := q\<rparr>"
  have f: "find (\<lambda>a. execution_id (objects s ! a) = x) (execution_history s) = None"
    using Cons.prems(3) by (auto simp: find_None_iff)
  have "process_execution_queue env s = process_execution_queue env ?s1"
    using Cons.prems(1,2) f by (subst process_execution_queue.simps) (simp add: Let_def)
  also have "\<dots> = Inr (?s1\<lparr>execution_queue := []\<rparr>)"
    using Cons.prems by (intro Cons.IH) auto
  finally show ?case by simp
qed

lemma agent_running_reached:
  "execute_single_test (env_const (99 / 100)) (agent_queued\<lparr>max_concurrent_executions := 3\<rparr>)
      tc_unknown ''exec_2''
   = then_do (simulate_sap_execution (env_const (99 / 100)) agent_running 1)
       (\<lambda>s2. Inr (Some (execution_id (objects s2 ! 1), ''running''), s2))"
  by (simp add: execute_single_test_def create_test_execution_def agent_queued_def
      tc_unknown_def dict_get_def datetime_now_def env_const_def agent_running_def exec_1_def
      exec_2_def steps_ZZ99 Let_def eval_nat_numeral del: simulate_sap_execution.simps)

lemma run_example:
  "\<exists>s1. run_to_completion (env_const (99 / 100))
            (agent_running\<lparr>max_concurrent_executions := n\<rparr>) 1 = Inr s1
     \<and> map status (objects s1) = [QUEUED, COMPLETED]
     \<and> active_executions s1 = [(''exec_1'', 0)]
     \<and> execution_history s1 = [1]
     \<and> execution_queue s1 = [''exec_1'']
     \<and> max_concurrent_executions s1 = n
     \<and> map execution_id (objects s1) = [''exec_1'', ''exec_2'']"
  by (simp add: run_to_completion_def agent_running_def exec_1_def exec_2_def steps_ZZ99
      sap_transaction_complexity_def default_complexity_def datetime_now_def env_const_def
      simulate_step_def random_uniform_def random_random_def should_step_fail_def
      step_failure_rate_def base_failure_rate_def critical_steps_def new_step_def
      complete_step_def then_do_def dict_del_def upt_rec Let_def str_nat.simps)

text \<open>
  Cancelling an execution that is not in the queue (a running one, for instance) leaves
  the queue as it is: \<open>cancel_execution\<close> never calls
  \<open>_process_execution_queue\<close>.
\<close>

lemma cancel_active_keeps_queue:
  "eid \<notin> set (execution_queue s) \<Longrightarrow>
   execution_queue (snd (cancel_execution env s eid)) = execution_queue s"
  by (simp add: cancel_execution_def datetime_now_def Let_def split: option.splits prod.splits)

text \<open>
  C1. The claim is that when a running execution terminates and the queue is not empty,
  the execution at the head of the queue is dequeued and becomes running. Let \<open>s1\<close> be
  the agent when the running execution has been finalised, moved to the history and
  taken out of \<open>active_executions\<close>. The queued executions are still counted in
  \<open>active_executions\<close>: if they fill the limit, nothing is dequeued. Otherwise
  \<open>_process_execution_queue\<close> looks each dequeued id up in the history, where a
  waiting execution never is: the whole queue is emptied and no object changes, so
  no waiting execution becomes running.
\<close>

theorem queue_head_not_promoted:
  assumes "run_to_completion env s a = Inr s1"
  shows "(\<not> length (active_executions s1) < max_concurrent_executions s1 \<longrightarrow>
            simulate_sap_execution env s a = Inr s1)
       \<and> (length (active_executions s1) < max_concurrent_executions s1
            \<and> (\<forall>b \<in> set (execution_history s1).
                   execution_id (objects s1 ! b) \<notin> set (execution_queue s1)) \<longrightarrow>
            simulate_sap_execution env s a = Inr (s1\<lparr>execution_queue := []\<rparr>))"
  using assms process_execution_queue_drops[of s1 "execution_queue s1" env]
  by (auto simp add: process_execution_queue_full)

theorem queue_head_not_promoted_witness:
  "(\<exists>s1. run_to_completion (env_const (99 / 100))
            (agent_running\<lparr>max_concurrent_executions := 3\<rparr>) 1 = Inr s1
      \<and> length (active_executions s1) < max_concurrent_executions s1
      \<and> (\<forall>b \<in> set (execution_history s1).
             execution_id (objects s1 ! b) \<notin> set (execution_queue s1))
      \<and> execution_queue s1 = [''exec_1'']
      \<and> map status (objects s1) = [QUEUED, COMPLETED]
      \<and> simulate_sap_execution (env_const (99 / 100))
            (agent_running\<lparr>max_concurrent_executions := 3\<rparr>) 1
          = Inr (s1\<lparr>execution_queue := []\<rparr>))
   \<and> (\<exists>s1. run_to_completion (env_const (99 / 100))
            (agent_running\<lparr>max_concurrent_executions := 1\<rparr>) 1 = Inr s1
      \<and> \<not> length (active_executions s1) < max_concurrent_executions s1
      \<and> execution_queue s1 = [''exec_1'']
      \<and> map status (objects s1) = [QUEUED, COMPLETED]
      \<and> simulate_sap_execution (env_const (99 / 100))
            (agent_running\<lparr>max_concurrent_executions := 1\<rparr>) 1 = Inr s1)"
proof -
  let ?E = "env_const (99 / 100)"
  obtain s3 where e3: "run_to_completion ?E (agent_running\<lparr>max_concurrent_executions := 3\<rparr>) 1 = Inr s3
     \<and> map status (objects s3) = [QUEUED, COMPLETED]
     \<and> active_executions s3 = [(''exec_1'', 0)]
     \<and> execution_history s3 = [1]
     \<and> execution_queue s3 = [''exec_1'']
     \<and> max_concurrent_executions s3 = 3
     \<and> map execution_id (objects s3) = [''exec_1'', ''exec_2'']"
    using run_example[of 3] ..
  obtain s1 where e1: "run_to_completion ?E (agent_running\<lparr>max_concurrent_executions := 1\<rparr>) 1 = Inr s1
     \<and> map status (objects s1) = [QUEUED, COMPLETED]
     \<and> active_executions s1 = [(''exec_1'', 0)]
     \<and> execution_history s1 = [1]
     \<and> execution_queue s1 = [''exec_1'']
     \<and> max_concurrent_executions s1 = 1
     \<and> map execution_id (objects s1) = [''exec_1'', ''exec_2'']"
    using run_example[of 1] ..
  from e3 have r3: "run_to_completion ?E (agent_running\<lparr>max_concurrent_executions := 3\<rparr>) 1 = Inr s3"
    by (rule conjunct1)
  from e1 have r1: "run_to_completion ?E (agent_running\<lparr>max_concurrent_executions := 1\<rparr>) 1 = Inr s1"
    by (rule conjunct1)
  from e3 have ids: "map execution_id (objects s3) = [''exec_1'', ''exec_2'']" by simp
  from arg_cong[OF ids, of length] have len: "length (objects s3) = 2" by simp
  from arg_cong[OF ids, of "\<lambda>xs. xs ! 1"] len
  have id1: "execution_id (objects s3 ! 1) = ''exec_2''" by simp
  have c3: "length (active_executions s3) < max_concurrent_executions s3" using e3 by simp
  have h3: "\<forall>b \<in> set (execution_history s3). execution_id (objects s3 ! b) \<notin> set (execution_queue s3)"
    using e3 id1 by simp
  have c1: "\<not> length (active_executions s1) < max_concurrent_executions s1" using e1 by simp
  have q3: "simulate_sap_execution ?E (agent_running\<lparr>max_concurrent_executions := 3\<rparr>) 1
          = Inr (s3\<lparr>execution_queue := []\<rparr>)"
    using queue_head_not_promoted[OF r3] c3 h3 by (simp del: simulate_sap_execution.simps)
  have q1: "simulate_sap_execution ?E (agent_running\<lparr>max_concurrent_executions := 1\<rparr>) 1 = Inr s1"
    using queue_head_not_promoted[OF r1] c1 by (simp del: simulate_sap_execution.simps)
  show ?thesis
  proof (rule conjI)
    show "\<exists>s1. run_to_completion ?E (agent_running\<lparr>max_concurrent_executions := 3\<rparr>) 1 = Inr s1
      \<and> length (active_executions s1) < max_concurrent_executions s1
      \<and> (\<forall>b \<in> set (execution_history s1).
             execution_id (objects s1 ! b) \<notin> set (execution_queue s1))
      \<and> execution_queue s1 = [''exec_1'']
      \<and> map status (objects s1) = [QUEUED, COMPLETED]
      \<and> simulate_sap_execution ?E (agent_running\<lparr>max_concurrent_executions := 3\<rparr>) 1
          = Inr (s1\<lparr>execution_queue := []\<rparr>)"
      using r3 c3 h3 q3 e3 by (intro exI[of _ s3]) (simp del: simulate_sap_execution.simps)
    show "\<exists>s1'. run_to_completion ?E (agent_running\<lparr>max_concurrent_executions := 1\<rparr>) 1 = Inr s1'
      \<and> \<not> length (active_executions s1') < max_concurrent_executions s1'
      \<and> execution_queue s1' = [''exec_1'']
      \<and> map status (objects s1') = [QUEUED, COMPLETED]
      \<and> simulate_sap_execution ?E (agent_running\<lparr>max_concurrent_executions := 1\<rparr>) 1 = Inr s1'"
      using r1 c1 q1 e1 by (intro exI[of _ s1]) (simp del: simulate_sap_execution.simps)
  qed
qed

section \<open>The test execution agent: auto-healing\<close>

lemma sorted_strategies_desc:
  "sorted_wrt (\<lambda>x y. success_rate x \<ge> success_rate y) (sorted_strategies sts)"
proof -
  have "sorted (map (\<lambda>x. - success_rate x) (sort_key (\<lambda>x. - success_rate x) sts))"
    by (rule sorted_sort_key)
  then show ?thesis
    by (simp add: sorted_strategies_def sorted_map)
qed

lemma sorted_strategies_mset: "mset (sorted_strategies sts) = mset sts"
  by (simp add: sorted_strategies_def)

lemma try_strategies_first:
  "k < length sts \<Longrightarrow>
   (\<forall>j<k. \<not> random_values env (rand_calls w + j) < success_rate (sts ! j)) \<Longrightarrow>
   random_values env (rand_calls w + k) < success_rate (sts ! k) \<Longrightarrow>
   try_strategies env w sts = (Some (sts ! k), w\<lparr>rand_calls := rand_calls w + k + 1\<rparr>)"
proof (induction sts arbitrary: k w)
  case Nil
  then show ?case by simp
next
  case (Cons st sts)
  show ?case
  proof (cases k)
    case 0
    with Cons.prems show ?thesis by (simp add: random_random_def)
  next
    case (Suc k')
    let ?w = "w\<lparr>rand_calls := rand_calls w + 1\<rparr>"
    from Cons.prems Suc have nf: "\<not> random_values env (rand_calls w) < success_rate st"
      by (metis add.right_neutral nth_Cons_0 zero_less_Suc)
    have a: "k' < length sts" using Cons.prems Suc by simp
    have b: "\<forall>j<k'. \<not> random_values env (rand_calls ?w + j) < success_rate (sts ! j)"
    proof (intro allI impI)
      fix j assume "j < k'"
      then have "Suc j < k" using Suc by simp
      with Cons.prems(2) have "\<not> random_values env (rand_calls w + Suc j) < success_rate ((st # sts) ! Suc j)"
        by blast
      then show "\<not> random_values env (rand_calls ?w + j) < success_rate (sts ! j)" by simp
    qed
    have c: "random_values env (rand_calls ?w + k') < success_rate (sts ! k')"
      using Cons.prems(3) Suc by simp
    from Cons.IH[OF a b c] nf Suc show ?thesis
      by (simp add: random_random_def)
  qed
qed

lemma try_strategies_none:
  "(\<forall>j<length sts. \<not> random_values env (rand_calls w + j) < success_rate (sts ! j)) \<Longrightarrow>
   try_strategies env w sts = (None, w\<lparr>rand_calls := rand_calls w + length sts\<rparr>)"
proof (induction sts arbitrary: w)
  case Nil
  then show ?case by simp
next
  case (Cons st sts)
  let ?w = "w\<lparr>rand_calls := rand_calls w + 1\<rparr>"
  from Cons.prems have nf: "\<not> random_values env (rand_calls w) < success_rate st"
    by (metis add.right_neutral length_greater_0_conv list.distinct(1) nth_Cons_0)
  have b: "\<forall>j<length sts. \<not> random_values env (rand_calls ?w + j) < success_rate (sts ! j)"
  proof (intro allI impI)
    fix j assume "j < length sts"
    then have "Suc j < length (st # sts)" by simp
    with Cons.prems have "\<not> random_values env (rand_calls w + Suc j) < success_rate ((st # sts) ! Suc j)"
      by blast
    then show "\<not> random_values env (rand_calls ?w + j) < success_rate (sts ! j)" by simp
  qed
  from Cons.IH[OF b] nf show ?case by (simp add: random_random_def)
qed

lemma generate_step_error_pattern:
  assumes "generate_step_error env w tx step = Inr (ei, w')"
  shows "\<exists>p. map_of error_patterns (err_pattern ei) = Some p
            \<and> err_details ei = pattern_description p"
  using assms
  by (auto simp: generate_step_error_def then_do_def dict_subscript_def Let_def
      split: sum.splits option.splits prod.splits)


lemma attempt_auto_healing_success:
  assumes "map_of error_patterns (err_pattern ei) = Some p"
    and "k < length (sorted_strategies (healing_strategies p))"
    and "\<forall>j<k. \<not> random_values env (rand_calls w + j)
                   < success_rate (sorted_strategies (healing_strategies p) ! j)"
    and "random_values env (rand_calls w + k)
           < success_rate (sorted_strategies (healing_strategies p) ! k)"
  shows "attempt_auto_healing env w ei
           = Inr (healing_succeeded ei (sorted_strategies (healing_strategies p) ! k),
                  w\<lparr>rand_calls := rand_calls w + k + 1\<rparr>)"
  using try_strategies_first[OF assms(2,3,4)] assms(1)
  by (simp add: attempt_auto_healing_def then_do_def dict_subscript_def)

lemma attempt_auto_healing_failure:
  assumes "map_of error_patterns (err_pattern ei) = Some p"
    and "\<forall>j<length (sorted_strategies (healing_strategies p)).
            \<not> random_values env (rand_calls w + j)
                 < success_rate (sorted_strategies (healing_strategies p) ! j)"
  shows "attempt_auto_healing env w ei
           = Inr (healing_failed ei,
                  w\<lparr>rand_calls := rand_calls w + length (sorted_strategies (healing_strategies p))\<rparr>)"
  using try_strategies_none[OF assms(2)] assms(1)
  by (simp add: attempt_auto_healing_def then_do_def dict_subscript_def)

lemma simulate_step_healed:
  assumes "random_uniform env (ls_world ls) (7 / 10) (18 / 10) = (u, w1)"
    and "step = (execution_steps (ls_execution ls) ! i)
                  \<lparr>step_status := ''running'', step_start_time := Some (ls_current_time ls)\<rparr>"
    and "should_step_fail env w1 (transaction (ls_execution ls)) step i = (True, w2)"
    and "generate_step_error env w2 (transaction (ls_execution ls)) step = Inr (ei, w3)"
    and "attempt_auto_healing env w3 ei = Inr (hr, w4)"
    and "i < length (execution_steps (ls_execution ls))"
    and "success hr"
  shows "\<exists>ls'. simulate_step env cx i ls = Inr (Continue, ls')
           \<and> step_status (execution_steps (ls_execution ls') ! i) = ''passed''
           \<and> details (execution_steps (ls_execution ls') ! i)
               = Some (err_details ei @ '' | Auto-healed: '' @ action hr)
           \<and> auto_healing (ls_execution ls') = Some hr
           \<and> status (ls_execution ls') = status (ls_execution ls)
           \<and> simulate_steps env cx (i # rest) ls = simulate_steps env cx rest ls'"
  using assms
  by (simp add: simulate_step_def then_do_def complete_step_def datetime_now_def Let_def)

lemma simulate_step_unhealed:
  assumes "random_uniform env (ls_world ls) (7 / 10) (18 / 10) = (u, w1)"
    and "step = (execution_steps (ls_execution ls) ! i)
                  \<lparr>step_status := ''running'', step_start_time := Some (ls_current_time ls)\<rparr>"
    and "should_step_fail env w1 (transaction (ls_execution ls)) step i = (True, w2)"
    and "generate_step_error env w2 (transaction (ls_execution ls)) step = Inr (ei, w3)"
    and "attempt_auto_healing env w3 ei = Inr (hr, w4)"
    and "i < length (execution_steps (ls_execution ls))"
    and "\<not> success hr"
  shows "\<exists>ls'. simulate_step env cx i ls = Inr (Break, ls')
           \<and> status (ls_execution ls') = FAILED
           \<and> result (ls_execution ls') = Some RESULT_FAILED
           \<and> step_status (execution_steps (ls_execution ls') ! i) = ''failed''
           \<and> length (execution_steps (ls_execution ls')) = length (execution_steps (ls_execution ls))
           \<and> (\<forall>j. j \<noteq> i \<longrightarrow>
                 execution_steps (ls_execution ls') ! j = execution_steps (ls_execution ls) ! j)
           \<and> simulate_steps env cx (i # rest) ls = Inr ls'"
  using assms
  by (simp add: simulate_step_def then_do_def Let_def)

lemma attempt_auto_healing_total:
  assumes "map_of error_patterns (err_pattern ei) = Some p"
  shows "\<exists>hr w4. attempt_auto_healing env w ei = Inr (hr, w4)"
  using assms
  by (simp add: attempt_auto_healing_def then_do_def dict_subscript_def
      split: prod.splits option.splits)

text \<open>
  C3. Let a step fail (the draw of \<open>_should_step_fail\<close> is below the rate) and let
  \<open>_generate_step_error\<close> select the error \<open>ei\<close>. Then the pattern of \<open>ei\<close> is in
  the table, and \<open>_attempt_auto_healing\<close> returns a record \<open>hr\<close>. The strategies it
  goes through are those of the pattern, in descending order of success rate. If the
  \<open>k\<close>-th of them is the first whose draw is below its rate, \<open>hr\<close> is the success
  record naming that strategy, after \<open>k + 1\<close> draws; if no draw is below its rate,
  \<open>hr\<close> is the failure record with the manual recommendation. When \<open>hr\<close> reports
  success, the step is set to passed, the healing action is appended to its details,
  \<open>hr\<close> is stored on the execution, whose status is unchanged, and the loop goes on with
  the remaining steps. When it reports failure, the status of the execution is failed
  and its result failed, the loop ends there, the failed step stays failed and every
  other step is as it was.
\<close>

theorem auto_healing_of_failed_step:
  assumes ru: "random_uniform env (ls_world ls) (7 / 10) (18 / 10) = (u, w1)"
    and st: "step = (execution_steps (ls_execution ls) ! i)
                  \<lparr>step_status := ''running'', step_start_time := Some (ls_current_time ls)\<rparr>"
    and sf: "should_step_fail env w1 (transaction (ls_execution ls)) step i = (True, w2)"
    and ge: "generate_step_error env w2 (transaction (ls_execution ls)) step = Inr (ei, w3)"
    and il: "i < length (execution_steps (ls_execution ls))"
  shows "\<exists>p hr w4.
      map_of error_patterns (err_pattern ei) = Some p
    \<and> attempt_auto_healing env w3 ei = Inr (hr, w4)
    \<and> sorted_wrt (\<lambda>x y. success_rate x \<ge> success_rate y) (sorted_strategies (healing_strategies p))
    \<and> mset (sorted_strategies (healing_strategies p)) = mset (healing_strategies p)
    \<and> (\<forall>k < length (sorted_strategies (healing_strategies p)).
          (\<forall>j<k. \<not> random_values env (rand_calls w3 + j)
                       < success_rate (sorted_strategies (healing_strategies p) ! j))
          \<and> random_values env (rand_calls w3 + k)
                < success_rate (sorted_strategies (healing_strategies p) ! k)
          \<longrightarrow> hr = healing_succeeded ei (sorted_strategies (healing_strategies p) ! k)
            \<and> success hr
            \<and> action hr = strategy_action (sorted_strategies (healing_strategies p) ! k)
            \<and> w4 = w3\<lparr>rand_calls := rand_calls w3 + k + 1\<rparr>)
    \<and> ((\<forall>j < length (sorted_strategies (healing_strategies p)).
            \<not> random_values env (rand_calls w3 + j)
                 < success_rate (sorted_strategies (healing_strategies p) ! j))
          \<longrightarrow> hr = healing_failed ei
            \<and> \<not> success hr
            \<and> action hr = ''manual_intervention_required''
            \<and> map rec_action (recommendations hr) = [''manual_investigation_required''])
    \<and> (success hr \<longrightarrow>
          (\<exists>ls'. simulate_step env cx i ls = Inr (Continue, ls')
             \<and> step_status (execution_steps (ls_execution ls') ! i) = ''passed''
             \<and> details (execution_steps (ls_execution ls') ! i)
                 = Some (err_details ei @ '' | Auto-healed: '' @ action hr)
             \<and> auto_healing (ls_execution ls') = Some hr
             \<and> status (ls_execution ls') = status (ls_execution ls)
             \<and> simulate_steps env cx (i # rest) ls = simulate_steps env cx rest ls'))
    \<and> (\<not> success hr \<longrightarrow>
          (\<exists>ls'. simulate_step env cx i ls = Inr (Break, ls')
             \<and> status (ls_execution ls') = FAILED
             \<and> result (ls_execution ls') = Some RESULT_FAILED
             \<and> step_status (execution_steps (ls_execution ls') ! i) = ''failed''
             \<and> length (execution_steps (ls_execution ls'))
                 = length (execution_steps (ls_execution ls))
             \<and> (\<forall>j. j \<noteq> i \<longrightarrow>
                   execution_steps (ls_execution ls') ! j = execution_steps (ls_execution ls) ! j)
             \<and> simulate_steps env cx (i # rest) ls = Inr ls'))"
proof -
  from generate_step_error_pattern[OF ge] obtain p where
    p: "map_of error_patterns (err_pattern ei) = Some p" by blast
  from attempt_auto_healing_total[OF p] obtain hr w4 where
    h: "attempt_auto_healing env w3 ei = Inr (hr, w4)" by blast
  let ?sts = "sorted_strategies (healing_strategies p)"
  have first: "\<forall>k < length ?sts.
          (\<forall>j<k. \<not> random_values env (rand_calls w3 + j) < success_rate (?sts ! j))
          \<and> random_values env (rand_calls w3 + k) < success_rate (?sts ! k)
          \<longrightarrow> hr = healing_succeeded ei (?sts ! k)
            \<and> success hr
            \<and> action hr = strategy_action (?sts ! k)
            \<and> w4 = w3\<lparr>rand_calls := rand_calls w3 + k + 1\<rparr>"
  proof (intro allI impI)
    fix k
    assume k: "k < length ?sts"
      and d: "(\<forall>j<k. \<not> random_values env (rand_calls w3 + j) < success_rate (?sts ! j))
          \<and> random_values env (rand_calls w3 + k) < success_rate (?sts ! k)"
    from attempt_auto_healing_success[OF p k conjunct1[OF d] conjunct2[OF d]] h
    have "hr = healing_succeeded ei (?sts ! k)" "w4 = w3\<lparr>rand_calls := rand_calls w3 + k + 1\<rparr>"
      by simp_all
    then show "hr = healing_succeeded ei (?sts ! k)
            \<and> success hr
            \<and> action hr = strategy_action (?sts ! k)
            \<and> w4 = w3\<lparr>rand_calls := rand_calls w3 + k + 1\<rparr>"
      by (simp add: healing_succeeded_def)
  qed
  have none: "(\<forall>j < length ?sts.
            \<not> random_values env (rand_calls w3 + j) < success_rate (?sts ! j))
          \<longrightarrow> hr = healing_failed ei
            \<and> \<not> success hr
            \<and> action hr = ''manual_intervention_required''
            \<and> map rec_action (recommendations hr) = [''manual_investigation_required'']"
  proof
    assume a: "\<forall>j < length ?sts.
            \<not> random_values env (rand_calls w3 + j) < success_rate (?sts ! j)"
    from attempt_auto_healing_failure[OF p a] h have "hr = healing_failed ei" by simp
    then show "hr = healing_failed ei
            \<and> \<not> success hr
            \<and> action hr = ''manual_intervention_required''
            \<and> map rec_action (recommendations hr) = [''manual_investigation_required'']"
      by (simp add: healing_failed_def)
  qed
  have healed: "success hr \<longrightarrow>
          (\<exists>ls'. simulate_step env cx i ls = Inr (Continue, ls')
             \<and> step_status (execution_steps (ls_execution ls') ! i) = ''passed''
             \<and> details (execution_steps (ls_execution ls') ! i)
                 = Some (err_details ei @ '' | Auto-healed: '' @ action hr)
             \<and> auto_healing (ls_execution ls') = Some hr
             \<and> status (ls_execution ls') = status (ls_execution ls)
             \<and> simulate_steps env cx (i # rest) ls = simulate_steps env cx rest ls')"
    using simulate_step_healed[OF ru st sf ge h il] by blast
  have unhealed: "\<not> success hr \<longrightarrow>
          (\<exists>ls'. simulate_step env cx i ls = Inr (Break, ls')
             \<and> status (ls_execution ls') = FAILED
             \<and> result (ls_execution ls') = Some RESULT_FAILED
             \<and> step_status (execution_steps (ls_execution ls') ! i) = ''failed''
             \<and> length (execution_steps (ls_execution ls'))
                 = length (execution_steps (ls_execution ls))
             \<and> (\<forall>j. j \<noteq> i \<longrightarrow>
                   execution_steps (ls_execution ls') ! j = execution_steps (ls_execution ls) ! j)
             \<and> simulate_steps env cx (i # rest) ls = Inr ls')"
    using simulate_step_unhealed[OF ru st sf ge h il] by blast
  note sd = sorted_strategies_desc[of "healing_strategies p"]
  note sm = sorted_strategies_mset[of "healing_strategies p"]
  show ?thesis
    apply (rule exI[of _ p], rule exI[of _ hr], rule exI[of _ w4])
    apply (intro conjI)
           apply (rule p)
          apply (rule h)
         apply (rule sd)
        apply (rule sm)
       apply (rule first)
      apply (rule none)
     apply (rule healed)
    apply (rule unhealed)
    done
qed

lemma step_example_eq:
  "step_example = (execution_steps (ls_execution ls_example) ! 2)
      \<lparr>step_status := ''running'', step_start_time := Some (ls_current_time ls_example)\<rparr>"
  by (simp add: step_example_def ls_example_def exec_2_def exec_1_def steps_ZZ99)

lemma example_uniform:
  "random_uniform (env_const (1 / 10)) (ls_world ls_example) (7 / 10) (18 / 10)
     = (81 / 100, world0\<lparr>rand_calls := 1\<rparr>)"
  "random_uniform env_unhealed (ls_world ls_example) (7 / 10) (18 / 10)
     = (81 / 100, world0\<lparr>rand_calls := 1\<rparr>)"
  by (simp_all add: random_uniform_def random_random_def env_const_def env_unhealed_def
      ls_example_def world0_def)

lemma example_fails:
  "should_step_fail (env_const (1 / 10)) (world0\<lparr>rand_calls := 1\<rparr>)
      (transaction (ls_execution ls_example)) step_example 2 = (True, world0\<lparr>rand_calls := 2\<rparr>)"
  "should_step_fail env_unhealed (world0\<lparr>rand_calls := 1\<rparr>)
      (transaction (ls_execution ls_example)) step_example 2 = (True, world0\<lparr>rand_calls := 2\<rparr>)"
  by (simp_all add: should_step_fail_def step_failure_rate_def base_failure_rate_def
      sap_transaction_complexity_def critical_steps_def random_random_def env_const_def
      env_unhealed_def ls_example_def exec_2_def exec_1_def step_example_def new_step_def
      world0_def)

lemma example_error:
  "generate_step_error (env_const (1 / 10)) (world0\<lparr>rand_calls := 2\<rparr>)
      (transaction (ls_execution ls_example)) step_example
     = Inr (error_example, world0\<lparr>rand_calls := 3\<rparr>)"
  "generate_step_error env_unhealed (world0\<lparr>rand_calls := 2\<rparr>)
      (transaction (ls_execution ls_example)) step_example
     = Inr (error_example, world0\<lparr>rand_calls := 3\<rparr>)"
  by (simp_all add: generate_step_error_def random_choices_def bisect_def error_patterns_def
      error_codes_def error_messages_def then_do_def dict_subscript_def random_random_def
      env_const_def env_unhealed_def ls_example_def exec_2_def exec_1_def step_example_def
      new_step_def world0_def error_example_def Let_def)

lemma example_healing:
  "attempt_auto_healing (env_const (1 / 10)) (world0\<lparr>rand_calls := 3\<rparr>) error_example
     = Inr (healing_succeeded error_example
              \<lparr>strategy_action = ''use_emergency_approval'', success_rate = 95 / 100\<rparr>,
            world0\<lparr>rand_calls := 4\<rparr>)"
  "attempt_auto_healing env_unhealed (world0\<lparr>rand_calls := 3\<rparr>) error_example
     = Inr (healing_failed error_example, world0\<lparr>rand_calls := 6\<rparr>)"
  by (simp_all add: attempt_auto_healing_def sorted_strategies_def error_patterns_def
      then_do_def dict_subscript_def random_random_def env_const_def env_unhealed_def
      world0_def error_example_def)

theorem auto_healing_of_failed_step_witness:
  "random_uniform (env_const (1 / 10)) (ls_world ls_example) (7 / 10) (18 / 10)
      = (81 / 100, world0\<lparr>rand_calls := 1\<rparr>)
   \<and> should_step_fail (env_const (1 / 10)) (world0\<lparr>rand_calls := 1\<rparr>)
        (transaction (ls_execution ls_example)) step_example 2 = (True, world0\<lparr>rand_calls := 2\<rparr>)
   \<and> generate_step_error (env_const (1 / 10)) (world0\<lparr>rand_calls := 2\<rparr>)
        (transaction (ls_execution ls_example)) step_example
      = Inr (error_example, world0\<lparr>rand_calls := 3\<rparr>)
   \<and> 2 < length (execution_steps (ls_execution ls_example))
   \<and> (\<exists>ls'. simulate_step (env_const (1 / 10)) default_complexity 2 ls_example = Inr (Continue, ls')
          \<and> step_status (execution_steps (ls_execution ls') ! 2) = ''passed''
          \<and> details (execution_steps (ls_execution ls') ! 2)
              = Some ''Workflow approval timeout | Auto-healed: use_emergency_approval''
          \<and> map_option action (auto_healing (ls_execution ls')) = Some ''use_emergency_approval''
          \<and> status (ls_execution ls') = RUNNING)
   \<and> random_uniform env_unhealed (ls_world ls_example) (7 / 10) (18 / 10)
      = (81 / 100, world0\<lparr>rand_calls := 1\<rparr>)
   \<and> should_step_fail env_unhealed (world0\<lparr>rand_calls := 1\<rparr>)
        (transaction (ls_execution ls_example)) step_example 2 = (True, world0\<lparr>rand_calls := 2\<rparr>)
   \<and> generate_step_error env_unhealed (world0\<lparr>rand_calls := 2\<rparr>)
        (transaction (ls_execution ls_example)) step_example
      = Inr (error_example, world0\<lparr>rand_calls := 3\<rparr>)
   \<and> (\<exists>ls'. simulate_step env_unhealed default_complexity 2 ls_example = Inr (Break, ls')
          \<and> status (ls_execution ls') = FAILED
          \<and> result (ls_execution ls') = Some RESULT_FAILED
          \<and> step_status (execution_steps (ls_execution ls') ! 2) = ''failed''
          \<and> simulate_steps env_unhealed default_complexity [2, 3, 4, 5] ls_example = Inr ls')"
proof -
  have len: "2 < length (execution_steps (ls_execution ls_example))"
    by (simp add: ls_example_def exec_2_def exec_1_def steps_ZZ99)
  have run: "status (ls_execution ls_example) = RUNNING"
    by (simp add: ls_example_def exec_2_def)
  have healed: "\<exists>ls'. simulate_step (env_const (1 / 10)) default_complexity 2 ls_example = Inr (Continue, ls')
          \<and> step_status (execution_steps (ls_execution ls') ! 2) = ''passed''
          \<and> details (execution_steps (ls_execution ls') ! 2)
              = Some ''Workflow approval timeout | Auto-healed: use_emergency_approval''
          \<and> map_option action (auto_healing (ls_execution ls')) = Some ''use_emergency_approval''
          \<and> status (ls_execution ls') = RUNNING"
  proof -
    from auto_healing_of_failed_step[OF example_uniform(1) step_example_eq example_fails(1)
        example_error(1) len, of default_complexity "[3, 4, 5]"]
    obtain p hr w4 where
      h: "attempt_auto_healing (env_const (1 / 10)) (world0\<lparr>rand_calls := 3\<rparr>) error_example
            = Inr (hr, w4)"
      and s: "success hr \<longrightarrow>
          (\<exists>ls'. simulate_step (env_const (1 / 10)) default_complexity 2 ls_example = Inr (Continue, ls')
             \<and> step_status (execution_steps (ls_execution ls') ! 2) = ''passed''
             \<and> details (execution_steps (ls_execution ls') ! 2)
                 = Some (err_details error_example @ '' | Auto-healed: '' @ action hr)
             \<and> auto_healing (ls_execution ls') = Some hr
             \<and> status (ls_execution ls') = status (ls_execution ls_example)
             \<and> simulate_steps (env_const (1 / 10)) default_complexity (2 # [3, 4, 5]) ls_example
                 = simulate_steps (env_const (1 / 10)) default_complexity [3, 4, 5] ls')"
      by (elim exE conjE) (rule that, assumption+)
    from h example_healing(1) have hr: "hr = healing_succeeded error_example
              \<lparr>strategy_action = ''use_emergency_approval'', success_rate = 95 / 100\<rparr>"
      by simp
    then have "success hr" and a: "action hr = ''use_emergency_approval''"
      by (simp_all add: healing_succeeded_def)
    with s obtain ls' where
      l: "simulate_step (env_const (1 / 10)) default_complexity 2 ls_example = Inr (Continue, ls')
             \<and> step_status (execution_steps (ls_execution ls') ! 2) = ''passed''
             \<and> details (execution_steps (ls_execution ls') ! 2)
                 = Some (err_details error_example @ '' | Auto-healed: '' @ action hr)
             \<and> auto_healing (ls_execution ls') = Some hr
             \<and> status (ls_execution ls') = status (ls_execution ls_example)"
      by (elim impE exE conjE) (assumption, rule that, intro conjI, assumption+)
    show ?thesis
      by (rule exI[of _ ls']) (use l a run in \<open>simp add: error_example_def\<close>)
  qed
  have unhealed: "\<exists>ls'. simulate_step env_unhealed default_complexity 2 ls_example = Inr (Break, ls')
          \<and> status (ls_execution ls') = FAILED
          \<and> result (ls_execution ls') = Some RESULT_FAILED
          \<and> step_status (execution_steps (ls_execution ls') ! 2) = ''failed''
          \<and> simulate_steps env_unhealed default_complexity [2, 3, 4, 5] ls_example = Inr ls'"
  proof -
    from auto_healing_of_failed_step[OF example_uniform(2) step_example_eq example_fails(2)
        example_error(2) len, of default_complexity "[3, 4, 5]"]
    obtain p hr w4 where
      h: "attempt_auto_healing env_unhealed (world0\<lparr>rand_calls := 3\<rparr>) error_example
            = Inr (hr, w4)"
      and s: "\<not> success hr \<longrightarrow>
          (\<exists>ls'. simulate_step env_unhealed default_complexity 2 ls_example = Inr (Break, ls')
             \<and> status (ls_execution ls') = FAILED
             \<and> result (ls_execution ls') = Some RESULT_FAILED
             \<and> step_status (execution_steps (ls_execution ls') ! 2) = ''failed''
             \<and> length (execution_steps (ls_execution ls'))
                 = length (execution_steps (ls_execution ls_example))
             \<and> (\<forall>j. j \<noteq> 2 \<longrightarrow>
                   execution_steps (ls_execution ls') ! j
                     = execution_steps (ls_execution ls_example) ! j)
             \<and> simulate_steps env_unhealed default_complexity (2 # [3, 4, 5]) ls_example = Inr ls')"
      by (elim exE conjE) (rule that, assumption+)
    from h example_healing(2) have "hr = healing_failed error_example" by simp
    then have "\<not> success hr" by (simp add: healing_failed_def)
    with s obtain ls' where
      l: "simulate_step env_unhealed default_complexity 2 ls_example = Inr (Break, ls')
             \<and> status (ls_execution ls') = FAILED
             \<and> result (ls_execution ls') = Some RESULT_FAILED
             \<and> step_status (execution_steps (ls_execution ls') ! 2) = ''failed''
             \<and> simulate_steps env_unhealed default_complexity (2 # [3, 4, 5]) ls_example = Inr ls'"
      by (elim impE exE conjE) (assumption, rule that, intro conjI, assumption+)
    show ?thesis
      by (rule exI[of _ ls']) (use l in simp)
  qed
  show ?thesis
    using example_uniform example_fails example_error len healed unhealed
    by (intro conjI) assumption+
qed
section \<open>The test execution agent: the invariant of an execution\<close>

lemma complete_step_frame:
  "status (ls_execution (complete_step env i t st ls)) = status (ls_execution ls)"
  "result (ls_execution (complete_step env i t st ls)) = result (ls_execution ls)"
  "end_time (ls_execution (complete_step env i t st ls)) = end_time (ls_execution ls)"
  "total_steps (ls_execution (complete_step env i t st ls)) = total_steps (ls_execution ls)"
  "current_step (ls_execution (complete_step env i t st ls)) = current_step (ls_execution ls)"
  "length (execution_steps (ls_execution (complete_step env i t st ls)))
     = length (execution_steps (ls_execution ls))"
  by (simp_all add: complete_step_def datetime_now_def Let_def)

lemma simulate_step_frame:
  assumes "simulate_step env cx i ls = Inr (ctl, ls')"
  shows "total_steps (ls_execution ls') = total_steps (ls_execution ls)
       \<and> length (execution_steps (ls_execution ls')) = length (execution_steps (ls_execution ls))
       \<and> end_time (ls_execution ls') = end_time (ls_execution ls)
       \<and> current_step (ls_execution ls') = i + 1
       \<and> (ctl = Continue \<longrightarrow> status (ls_execution ls') = status (ls_execution ls)
                             \<and> result (ls_execution ls') = result (ls_execution ls))
       \<and> (ctl = Break \<longrightarrow> status (ls_execution ls') = FAILED
                          \<and> result (ls_execution ls') = Some RESULT_FAILED)"
  using assms
  by (auto simp: simulate_step_def then_do_def Let_def complete_step_frame
      split: prod.splits if_splits sum.splits)

lemma simulate_steps_frame:
  assumes "simulate_steps env cx idxs ls = Inr ls'"
  shows "total_steps (ls_execution ls') = total_steps (ls_execution ls)
       \<and> length (execution_steps (ls_execution ls')) = length (execution_steps (ls_execution ls))
       \<and> end_time (ls_execution ls') = end_time (ls_execution ls)
       \<and> (idxs = [] \<longrightarrow> current_step (ls_execution ls') = current_step (ls_execution ls))
       \<and> (idxs \<noteq> [] \<longrightarrow> (\<exists>i \<in> set idxs. current_step (ls_execution ls') = i + 1))
       \<and> (status (ls_execution ls') = status (ls_execution ls)
            \<and> result (ls_execution ls') = result (ls_execution ls)
          \<or> status (ls_execution ls') = FAILED
            \<and> result (ls_execution ls') = Some RESULT_FAILED)"
  using assms
proof (induction idxs arbitrary: ls)
  case Nil
  then show ?case by simp
next
  case (Cons i rest)
  from Cons.prems obtain ctl ls1 where s1: "simulate_step env cx i ls = Inr (ctl, ls1)"
    by (auto split: sum.splits)
  note f = simulate_step_frame[OF s1]
  show ?case
  proof (cases ctl)
    case Break
    with Cons.prems s1 have "ls' = ls1" by simp
    with f Break show ?thesis by simp
  next
    case Continue
    with Cons.prems s1 have r: "simulate_steps env cx rest ls1 = Inr ls'" by simp
    note ih = Cons.IH[OF r]
    show ?thesis
    proof (cases "rest = []")
      case True
      with ih f Continue show ?thesis by simp
    next
      case False
      with ih f Continue show ?thesis by auto
    qed
  qed
qed


lemma run_to_completion_objects:
  assumes "run_to_completion env s a = Inr s'"
  shows "\<exists>e'. objects s' = (objects s)[a := e']
            \<and> (running_shape (objects s ! a) \<longrightarrow> well_formed_execution e')"
proof -
  let ?e = "objects s ! a"
  let ?cx = "case map_of sap_transaction_complexity (transaction ?e) of
                  None \<Rightarrow> default_complexity | Some c \<Rightarrow> c"
  let ?ls0 = "\<lparr>ls_execution = ?e, ls_total_duration = 0,
                 ls_current_time = clock_values env (clock_calls (world s)),
                 ls_world = (world s)\<lparr>clock_calls := clock_calls (world s) + 1\<rparr>\<rparr>"
  from assms(1) obtain ls where
    loop: "simulate_steps env ?cx [0..<length (execution_steps ?e)] ?ls0 = Inr ls"
    by (auto simp: run_to_completion_def then_do_def datetime_now_def Let_def split: sum.splits)
  let ?e1 = "ls_execution ls"
  let ?e2 = "if status ?e1 = RUNNING then ?e1\<lparr>status := COMPLETED, result := Some PASSED\<rparr> else ?e1"
  let ?e3 = "?e2\<lparr>end_time := Some (clock_values env (clock_calls (ls_world ls))),
                  duration_seconds := Some (ls_total_duration ls)\<rparr>"
  from assms(1) loop have obj: "objects s' = (objects s)[a := ?e3]"
    by (auto simp: run_to_completion_def then_do_def datetime_now_def Let_def split: sum.splits)
  note f = simulate_steps_frame[OF loop]
  have "well_formed_execution ?e3" if sh: "running_shape ?e"
  proof -
    from sh have n: "0 < length (execution_steps ?e)" "total_steps ?e = length (execution_steps ?e)"
      "status ?e = RUNNING"
      by (auto simp: running_shape_def)
    from n have ne: "[0..<length (execution_steps ?e)] \<noteq> []" by simp
    from f ne obtain i where i: "i < length (execution_steps ?e)" "current_step ?e1 = i + 1"
      by auto
    from f have ts: "total_steps ?e1 = total_steps ?e"
      "length (execution_steps ?e1) = length (execution_steps ?e)" by simp_all
    from f n have st: "status ?e1 = RUNNING \<or> status ?e1 = FAILED \<and> result ?e1 = Some RESULT_FAILED"
      by auto
    show ?thesis
      using st i ts n
      by (auto simp: well_formed_execution_def execution_invariant_def is_terminal_def)
  qed
  with obj show ?thesis by blast
qed

lemma run_to_completion_well_formed:
  assumes "run_to_completion env s a = Inr s'" and "ready_to_run s a"
  shows "all_well_formed s'"
proof -
  from run_to_completion_objects[OF assms(1)] obtain e' where
    o: "objects s' = (objects s)[a := e']"
    and w: "running_shape (objects s ! a) \<longrightarrow> well_formed_execution e'" by blast
  have "well_formed_execution (objects s' ! b)" if "b < length (objects s')" for b
  proof (cases "b = a")
    case True
    with that o assms(2) w show ?thesis by (simp add: ready_to_run_def)
  next
    case False
    with that o assms(2) show ?thesis by (simp add: ready_to_run_def)
  qed
  then show ?thesis by (simp add: all_well_formed_def list_all_length)
qed

lemma start_ready:
  assumes "all_well_formed s"
  shows "ready_to_run
           (s\<lparr>objects := (objects s)[a := (objects s ! a)\<lparr>status := RUNNING, current_step := 1\<rparr>]\<rparr>) a"
  using assms
  by (auto simp: all_well_formed_def list_all_length ready_to_run_def running_shape_def
      well_formed_execution_def)

lemma queue_processing_well_formed:
  "all_well_formed s \<Longrightarrow> process_execution_queue env s = Inr s' \<Longrightarrow> all_well_formed s'"
  "all_well_formed s \<Longrightarrow> start_execution env s a = Inr s' \<Longrightarrow> all_well_formed s'"
  "ready_to_run s a \<Longrightarrow> simulate_sap_execution env s a = Inr s' \<Longrightarrow> all_well_formed s'"
proof (induct env s and env s a and env s a arbitrary: s' and s' and s'
    rule: process_execution_queue_start_execution_simulate_sap_execution.induct)
  case (1 env s)
  show ?case
  proof (cases "length (active_executions s) < max_concurrent_executions s \<and> execution_queue s \<noteq> []")
    case False
    with 1(4,5) show ?thesis by (simp add: process_execution_queue.simps)
  next
    case True
    let ?s1 = "s\<lparr>execution_queue := tl (execution_queue s)\<rparr>"
    let ?qid = "hd (execution_queue s)"
    have w1: "all_well_formed ?s1" using 1(4) by (simp add: all_well_formed_def)
    show ?thesis
    proof (cases "find (\<lambda>a. execution_id (objects ?s1 ! a) = ?qid) (execution_history ?s1)")
      case None
      with True 1(5) have "process_execution_queue env ?s1 = Inr s'"
        by (subst (asm) process_execution_queue.simps) (simp add: Let_def)
      from 1(1)[OF True refl refl None w1 this] show ?thesis .
    next
      case (Some a)
      let ?s1' = "?s1\<lparr>active_executions := AList.update ?qid a (active_executions ?s1)\<rparr>"
      have w1': "all_well_formed ?s1'" using 1(4) by (simp add: all_well_formed_def)
      from True Some 1(5) obtain s2 where
        s2: "start_execution env ?s1' a = Inr s2" and r: "process_execution_queue env s2 = Inr s'"
        by (subst (asm) process_execution_queue.simps) (auto simp: Let_def split: sum.splits)
      from 1(2)[OF True refl refl Some w1' s2] have "all_well_formed s2" .
      from 1(3)[OF True refl refl Some s2 this r] show ?thesis .
    qed
  qed
next
  case (2 env s a)
  from 2(3) have "simulate_sap_execution env
       (s\<lparr>objects := (objects s)[a := (objects s ! a)\<lparr>status := RUNNING, current_step := 1\<rparr>]\<rparr>) a
       = Inr s'"
    by (simp del: simulate_sap_execution.simps)
  from 2(1)[OF start_ready[OF 2(2)] this] show ?case .
next
  case (3 env s a)
  from 3(3) obtain s1 where s1: "run_to_completion env s a = Inr s1"
    and r: "process_execution_queue env s1 = Inr s'"
    by (auto split: sum.splits)
  from 3(1)[OF s1 run_to_completion_well_formed[OF s1 3(2)] r] show ?case .
qed


lemma generate_execution_steps_nonempty: "0 < length (generate_execution_steps tx)"
  by (simp add: generate_execution_steps_def base_steps_def Let_def)

lemma create_test_execution_well_formed:
  assumes "all_well_formed s" and "create_test_execution env s tc new_id = (a, s1)"
  shows "all_well_formed s1"
  using assms generate_execution_steps_nonempty
  by (auto simp: create_test_execution_def all_well_formed_def datetime_now_def Let_def
      well_formed_execution_def execution_invariant_def is_terminal_def)

lemma execute_single_test_well_formed:
  assumes "all_well_formed s" and "execute_single_test env s tc new_id = Inr (r, s')"
  shows "all_well_formed s'"
proof (cases "tc = []")
  case True
  with assms show ?thesis by (simp add: execute_single_test_def)
next
  case False
  obtain a s1 where c: "create_test_execution env s tc new_id = (a, s1)"
    by (cases "create_test_execution env s tc new_id")
  note w1 = create_test_execution_well_formed[OF assms(1) c]
  show ?thesis
  proof (cases "length (active_executions s1) < max_concurrent_executions s1")
    case True
    with assms(2) False c obtain s2 where s2: "start_execution env s1 a = Inr s2" and e: "s' = s2"
      by (auto simp: execute_single_test_def then_do_def simp del: start_execution.simps
          split: sum.splits)
    from queue_processing_well_formed(2)[OF w1 s2] e show ?thesis by simp
  next
    case F: False
    with assms(2) False c
    have "s' = s1\<lparr>execution_queue := execution_queue s1 @ [execution_id (objects s1 ! a)]\<rparr>"
      by (simp add: execute_single_test_def)
    with w1 show ?thesis by (simp add: all_well_formed_def)
  qed
qed

lemma submit_all_well_formed:
  "all_well_formed s \<Longrightarrow> submit_all env s tcs = Inr (as, s') \<Longrightarrow> all_well_formed s'"
proof (induction tcs arbitrary: s as)
  case Nil
  then show ?case by simp
next
  case (Cons x tcs)
  obtain tc new_id where x: "x = (tc, new_id)" by (cases x)
  obtain a s1 where c: "create_test_execution env s tc new_id = (a, s1)"
    by (cases "create_test_execution env s tc new_id")
  note w1 = create_test_execution_well_formed[OF Cons.prems(1) c]
  show ?case
  proof (cases "length (active_executions s1) \<ge> max_concurrent_executions s1")
    case True
    let ?s1 = "s1\<lparr>execution_queue := execution_queue s1 @ [execution_id (objects s1 ! a)]\<rparr>"
    from Cons.prems(2) x c True obtain as' where r: "submit_all env ?s1 tcs = Inr (as', s')"
      by (auto simp del: start_execution.simps split: sum.splits)
    have "all_well_formed ?s1" using w1 by (simp add: all_well_formed_def)
    from Cons.IH[OF this r] show ?thesis .
  next
    case False
    from Cons.prems(2) x c False obtain s2 as' where s2: "start_execution env s1 a = Inr s2"
      and r: "submit_all env s2 tcs = Inr (as', s')"
      by (auto simp del: start_execution.simps split: sum.splits)
    from Cons.IH[OF queue_processing_well_formed(2)[OF w1 s2] r] show ?thesis .
  qed
qed

lemma cancel_execution_well_formed:
  assumes "all_well_formed s"
  shows "all_well_formed (snd (cancel_execution env s eid))"
proof -
  have u: "list_all well_formed_execution
             ((objects s)[a := (objects s ! a)\<lparr>status := CANCELLED, result := Some SKIPPED,
                                                end_time := Some t\<rparr>])" for a t
  proof -
    have "well_formed_execution
            ((objects s)[a := (objects s ! a)\<lparr>status := CANCELLED, result := Some SKIPPED,
                                               end_time := Some t\<rparr>] ! n)"
      if n: "n < length (objects s)" for n
    proof (cases "n = a")
      case True
      from assms n have "well_formed_execution (objects s ! n)"
        by (simp add: all_well_formed_def list_all_length)
      with True n show ?thesis
        by (auto simp: well_formed_execution_def execution_invariant_def is_terminal_def)
    next
      case False
      with assms n show ?thesis by (simp add: all_well_formed_def list_all_length)
    qed
    then show ?thesis by (simp add: list_all_length)
  qed
  show ?thesis
    using assms u
    by (auto simp: cancel_execution_def all_well_formed_def datetime_now_def Let_def
        split: option.splits)
qed

lemma perform_well_formed:
  assumes "all_well_formed s" and "perform env s op = Inr s'"
  shows "all_well_formed s'"
proof (cases op)
  case (Execute_single tc new_id)
  with assms(2) obtain r where "execute_single_test env s tc new_id = Inr (r, s')"
    by (auto split: sum.splits)
  from execute_single_test_well_formed[OF assms(1) this] show ?thesis .
next
  case (Execute_suite tcs)
  show ?thesis
  proof (cases "tcs = []")
    case True
    with assms Execute_suite show ?thesis by (simp add: execute_test_suite_def)
  next
    case False
    with assms(2) Execute_suite obtain as where "submit_all env s tcs = Inr (as, s')"
      by (auto simp: execute_test_suite_def then_do_def split: sum.splits)
    from submit_all_well_formed[OF assms(1) this] show ?thesis .
  qed
next
  case (Cancel eid)
  with assms(2) cancel_execution_well_formed[OF assms(1), of env eid] show ?thesis by auto
qed

lemma perform_all_well_formed:
  "all_well_formed s \<Longrightarrow> perform_all env s ops = Inr s' \<Longrightarrow> all_well_formed s'"
proof (induction ops arbitrary: s)
  case Nil
  then show ?case by simp
next
  case (Cons op ops)
  from Cons.prems(2) obtain s1 where p: "perform env s op = Inr s1"
    and r: "perform_all env s1 ops = Inr s'"
    by (auto split: sum.splits)
  from Cons.IH[OF perform_well_formed[OF Cons.prems(1) p] r] show ?case .
qed

text \<open>
  No operation raises: the lookups of \<open>_generate_step_error\<close> and
  \<open>_attempt_auto_healing\<close> stay inside their tables, and \<open>_simulate_sap_execution\<close>
  is only entered for an execution that is registered in \<open>active_executions\<close> under
  its own id, so the final \<open>del\<close> finds its key.
\<close>

lemma bisect_le: "bisect cs x \<le> length cs"
  by (simp add: bisect_def length_takeWhile_le)

lemma generate_step_error_total:
  "\<exists>ei. generate_step_error env w tx step = Inr (ei, w\<lparr>rand_calls := rand_calls w + 1\<rparr>)
        \<and> map_of error_patterns (err_pattern ei) \<noteq> None"
proof -
  let ?x = "random_values env (rand_calls w) * 1"
  let ?k = "bisect [35 / 100, 60 / 100, 80 / 100, 95 / 100] (random_values env (rand_calls w))"
  have "?k \<le> length [35 / 100, 60 / 100, 80 / 100, 95 / 100 :: rat]" by (rule bisect_le)
  then have "?k \<le> 4" by simp
  then consider "?k = 0" | "?k = 1" | "?k = 2" | "?k = 3" | "?k = 4" by linarith
  then show ?thesis
    by cases
      (simp_all add: generate_step_error_def random_choices_def error_patterns_def
        error_codes_def error_messages_def then_do_def dict_subscript_def random_random_def
        Let_def)
qed


lemma attempt_auto_healing_returns:
  assumes "map_of error_patterns (err_pattern ei) \<noteq> None"
  shows "\<exists>hr w4. attempt_auto_healing env w ei = Inr (hr, w4)"
  using assms
  by (auto simp: attempt_auto_healing_def then_do_def dict_subscript_def
      split: prod.splits option.splits)

lemma complete_step_id:
  "execution_id (ls_execution (complete_step env i t st ls)) = execution_id (ls_execution ls)"
  by (simp add: complete_step_def datetime_now_def Let_def)

lemma simulate_step_total:
  "\<exists>ctl ls'. simulate_step env cx i ls = Inr (ctl, ls')
       \<and> execution_id (ls_execution ls') = execution_id (ls_execution ls)"
proof -
  obtain u w1 where ru: "random_uniform env (ls_world ls) (7 / 10) (18 / 10) = (u, w1)"
    by (cases "random_uniform env (ls_world ls) (7 / 10) (18 / 10)")
  let ?step = "(execution_steps (ls_execution ls) ! i)
                  \<lparr>step_status := ''running'', step_start_time := Some (ls_current_time ls)\<rparr>"
  obtain sf w2 where sf: "should_step_fail env w1 (transaction (ls_execution ls)) ?step i = (sf, w2)"
    by (cases "should_step_fail env w1 (transaction (ls_execution ls)) ?step i")
  show ?thesis
  proof (cases sf)
    case False
    with ru sf show ?thesis
      by (simp add: simulate_step_def Let_def complete_step_id)
  next
    case True
    from generate_step_error_total[of env w2 "transaction (ls_execution ls)" ?step]
    obtain ei where ge: "generate_step_error env w2 (transaction (ls_execution ls)) ?step
          = Inr (ei, w2\<lparr>rand_calls := rand_calls w2 + 1\<rparr>)"
      and pt: "map_of error_patterns (err_pattern ei) \<noteq> None" by blast
    from attempt_auto_healing_returns[OF pt] obtain hr w4 where
      h: "attempt_auto_healing env (w2\<lparr>rand_calls := rand_calls w2 + 1\<rparr>) ei = Inr (hr, w4)"
      by blast
    from True ru sf ge h show ?thesis
      by (simp add: simulate_step_def then_do_def Let_def complete_step_id)
  qed
qed

lemma simulate_steps_total:
  "\<exists>ls'. simulate_steps env cx idxs ls = Inr ls'
       \<and> execution_id (ls_execution ls') = execution_id (ls_execution ls)"
proof (induction idxs arbitrary: ls)
  case Nil
  show ?case by simp
next
  case (Cons i rest)
  from simulate_step_total[of env cx i ls] obtain ctl ls1 where
    s: "simulate_step env cx i ls = Inr (ctl, ls1)"
    and e: "execution_id (ls_execution ls1) = execution_id (ls_execution ls)" by blast
  show ?case
  proof (cases ctl)
    case Break
    with s e show ?thesis by simp
  next
    case Continue
    with s e Cons.IH[of ls1] show ?thesis by simp
  qed
qed

lemma run_to_completion_total:
  assumes "map_of (active_executions s) (execution_id (objects s ! a)) \<noteq> None"
  shows "\<exists>s'. run_to_completion env s a = Inr s'"
proof -
  let ?e = "objects s ! a"
  let ?cx = "case map_of sap_transaction_complexity (transaction ?e) of
                  None \<Rightarrow> default_complexity | Some c \<Rightarrow> c"
  let ?ls0 = "\<lparr>ls_execution = ?e, ls_total_duration = 0,
                 ls_current_time = clock_values env (clock_calls (world s)),
                 ls_world = (world s)\<lparr>clock_calls := clock_calls (world s) + 1\<rparr>\<rparr>"
  from simulate_steps_total[of env ?cx "[0..<length (execution_steps ?e)]" ?ls0]
  obtain ls where loop: "simulate_steps env ?cx [0..<length (execution_steps ?e)] ?ls0 = Inr ls"
    and e: "execution_id (ls_execution ls) = execution_id ?e" by auto
  from loop e assms show ?thesis
    by (auto simp: run_to_completion_def then_do_def datetime_now_def dict_del_def Let_def)
qed

lemma find_Some_property: "find P xs = Some x \<Longrightarrow> P x"
  by (auto simp: find_Some_iff)

lemma queue_processing_total:
  "\<exists>s'. process_execution_queue env s = Inr s'"
  "map_of (active_executions s) (execution_id (objects s ! a)) \<noteq> None \<Longrightarrow>
     \<exists>s'. start_execution env s a = Inr s'"
  "map_of (active_executions s) (execution_id (objects s ! a)) \<noteq> None \<Longrightarrow>
     \<exists>s'. simulate_sap_execution env s a = Inr s'"
proof (induct env s and env s a and env s a
    rule: process_execution_queue_start_execution_simulate_sap_execution.induct)
  case (1 env s)
  show ?case
  proof (cases "length (active_executions s) < max_concurrent_executions s \<and> execution_queue s \<noteq> []")
    case False
    then show ?thesis by (subst process_execution_queue.simps) auto
  next
    case True
    let ?s1 = "s\<lparr>execution_queue := tl (execution_queue s)\<rparr>"
    let ?qid = "hd (execution_queue s)"
    show ?thesis
    proof (cases "find (\<lambda>a. execution_id (objects ?s1 ! a) = ?qid) (execution_history ?s1)")
      case None
      from 1(1)[OF True refl refl None] obtain s' where "process_execution_queue env ?s1 = Inr s'"
        by blast
      with True None show ?thesis
        by (subst process_execution_queue.simps) (simp add: Let_def)
    next
      case (Some a)
      let ?s1' = "?s1\<lparr>active_executions := AList.update ?qid a (active_executions ?s1)\<rparr>"
      from find_Some_property[OF Some] have "execution_id (objects ?s1' ! a) = ?qid" by simp
      then have "map_of (active_executions ?s1') (execution_id (objects ?s1' ! a)) \<noteq> None"
        by (simp add: update_conv')
      from 1(2)[OF True refl refl Some this] obtain s2 where
        s2: "start_execution env ?s1' a = Inr s2" by blast
      from 1(3)[OF True refl refl Some s2] obtain s' where
        "process_execution_queue env s2 = Inr s'" by blast
      with True Some s2 show ?thesis
        by (subst process_execution_queue.simps) (simp add: Let_def del: start_execution.simps)
    qed
  qed
next
  case (2 env s a)
  let ?s = "s\<lparr>objects := (objects s)[a := (objects s ! a)\<lparr>status := RUNNING, current_step := 1\<rparr>]\<rparr>"
  have "execution_id (objects ?s ! a) = execution_id (objects s ! a)"
    by (cases "a < length (objects s)") (simp_all add: list_update_beyond)
  with 2(2) have "map_of (active_executions ?s) (execution_id (objects ?s ! a)) \<noteq> None" by simp
  from 2(1)[OF this] show ?case by (simp del: simulate_sap_execution.simps)
next
  case (3 env s a)
  from run_to_completion_total[OF 3(2)] obtain s1 where s1: "run_to_completion env s a = Inr s1"
    by blast
  from 3(1)[OF s1] s1 show ?case by simp
qed

lemma create_test_execution_active:
  assumes "create_test_execution env s tc new_id = (a, s1)"
  shows "map_of (active_executions s1) (execution_id (objects s1 ! a)) \<noteq> None"
  using assms
  by (auto simp: create_test_execution_def datetime_now_def Let_def update_conv')

lemma execute_single_test_total:
  "\<exists>r s'. execute_single_test env s tc new_id = Inr (r, s')"
proof -
  obtain a s1 where c: "create_test_execution env s tc new_id = (a, s1)"
    by (cases "create_test_execution env s tc new_id")
  from queue_processing_total(2)[OF create_test_execution_active[OF c]] obtain s2 where
    "start_execution env s1 a = Inr s2" by blast
  with c show ?thesis
    by (simp add: execute_single_test_def then_do_def del: start_execution.simps)
qed

lemma submit_all_total: "\<exists>as s'. submit_all env s tcs = Inr (as, s')"
proof (induction tcs arbitrary: s)
  case Nil
  show ?case by simp
next
  case (Cons x tcs)
  obtain tc new_id where x: "x = (tc, new_id)" by (cases x)
  obtain a s1 where c: "create_test_execution env s tc new_id = (a, s1)"
    by (cases "create_test_execution env s tc new_id")
  show ?case
  proof (cases "length (active_executions s1) \<ge> max_concurrent_executions s1")
    case True
    let ?s1 = "s1\<lparr>execution_queue := execution_queue s1 @ [execution_id (objects s1 ! a)]\<rparr>"
    from Cons.IH[of ?s1] obtain as s' where "submit_all env ?s1 tcs = Inr (as, s')" by blast
    with x c True show ?thesis by (simp del: start_execution.simps)
  next
    case False
    from queue_processing_total(2)[OF create_test_execution_active[OF c]] obtain s2 where
      s2: "start_execution env s1 a = Inr s2" by blast
    from Cons.IH[of s2] obtain as s' where "submit_all env s2 tcs = Inr (as, s')" by blast
    with x c False s2 show ?thesis by (simp del: start_execution.simps)
  qed
qed

lemma perform_total: "\<exists>s'. perform env s op = Inr s'"
proof (cases op)
  case (Execute_single tc new_id)
  with execute_single_test_total[of env s tc new_id] show ?thesis by auto
next
  case (Execute_suite tcs)
  with submit_all_total[of env s tcs] show ?thesis
    by (auto simp: execute_test_suite_def then_do_def)
next
  case (Cancel eid)
  then show ?thesis by simp
qed

lemma perform_all_total: "\<exists>s'. perform_all env s ops = Inr s'"
proof (induction ops arbitrary: s)
  case Nil
  show ?case by simp
next
  case (Cons op ops)
  from perform_total[of env s op] obtain s1 where "perform env s op = Inr s1" by blast
  with Cons.IH[of s1] show ?case by simp
qed

text \<open>
  C4. Start from an agent all of whose executions are well formed (the new agent has none)
  and perform any sequence of submissions and cancellations. The sequence returns, and for
  every execution of the resulting agent the step counter is at most the number of steps,
  the result and the end time are unset while the status is queued or running, and each
  of them is set exactly when the status is completed, failed or cancelled. The points
  observed are those between operations: an operation of the agent runs to its end
  without yielding.
\<close>

theorem execution_invariant_observable:
  assumes "all_well_formed s"
  shows "\<exists>s'. perform_all env s ops = Inr s'
     \<and> (\<forall>e \<in> set (objects s').
           current_step e \<le> total_steps e
           \<and> (status e = QUEUED \<or> status e = RUNNING \<longrightarrow> result e = None \<and> end_time e = None)
           \<and> (result e \<noteq> None \<longleftrightarrow> status e = COMPLETED \<or> status e = FAILED \<or> status e = CANCELLED)
           \<and> (end_time e \<noteq> None \<longleftrightarrow> status e = COMPLETED \<or> status e = FAILED \<or> status e = CANCELLED))"
proof -
  from perform_all_total[of env s ops] obtain s' where r: "perform_all env s ops = Inr s'"
    by blast
  have "\<forall>e \<in> set (objects s').
           current_step e \<le> total_steps e
           \<and> (status e = QUEUED \<or> status e = RUNNING \<longrightarrow> result e = None \<and> end_time e = None)
           \<and> (result e \<noteq> None \<longleftrightarrow> status e = COMPLETED \<or> status e = FAILED \<or> status e = CANCELLED)
           \<and> (end_time e \<noteq> None \<longleftrightarrow> status e = COMPLETED \<or> status e = FAILED \<or> status e = CANCELLED)"
  proof
    fix e assume "e \<in> set (objects s')"
    with perform_all_well_formed[OF assms r] have "well_formed_execution e"
      by (simp add: all_well_formed_def list_all_iff)
    then show "current_step e \<le> total_steps e
           \<and> (status e = QUEUED \<or> status e = RUNNING \<longrightarrow> result e = None \<and> end_time e = None)
           \<and> (result e \<noteq> None \<longleftrightarrow> status e = COMPLETED \<or> status e = FAILED \<or> status e = CANCELLED)
           \<and> (end_time e \<noteq> None \<longleftrightarrow> status e = COMPLETED \<or> status e = FAILED \<or> status e = CANCELLED)"
      by (cases "status e") (auto simp: well_formed_execution_def execution_invariant_def is_terminal_def)
  qed
  with r show ?thesis by blast
qed

lemma process_execution_queue_empty:
  "execution_queue s = [] \<Longrightarrow> process_execution_queue env s = Inr s"
  by (simp add: process_execution_queue.simps)

lemma invariant_example_run:
  "\<exists>s'. perform_all (env_const (99 / 100)) Agent_init
           [Execute_single tc_unknown ''exec_1'', Cancel ''exec_9''] = Inr s'
     \<and> map status (objects s') = [COMPLETED]
     \<and> map result (objects s') = [Some PASSED]
     \<and> map current_step (objects s') = [6]"
  by (simp add: execute_single_test_def create_test_execution_def Agent_init_def
      tc_unknown_def dict_get_def cancel_execution_def
      run_to_completion_def steps_ZZ99 process_execution_queue_empty
      sap_transaction_complexity_def default_complexity_def datetime_now_def env_const_def
      simulate_step_def random_uniform_def random_random_def should_step_fail_def
      step_failure_rate_def base_failure_rate_def critical_steps_def new_step_def
      complete_step_def then_do_def dict_del_def upt_rec Let_def str_nat.simps)

lemma invariant_example_cancel:
  "\<exists>s'. perform_all (env_const (99 / 100)) agent_cap1
           [Execute_single tc_unknown ''exec_1'', Cancel ''exec_1'', Cancel ''exec_1''] = Inr s'
     \<and> map status (objects s') = [CANCELLED]
     \<and> map result (objects s') = [Some SKIPPED]
     \<and> execution_history s' = [0]"
  by (simp add: execute_single_test_def create_test_execution_def Agent_init_def agent_cap1_def
      tc_unknown_def dict_get_def cancel_execution_def datetime_now_def env_const_def Let_def)

theorem execution_invariant_observable_witness:
  "all_well_formed Agent_init
   \<and> (\<exists>s'. perform_all (env_const (99 / 100)) Agent_init
           [Execute_single tc_unknown ''exec_1'', Cancel ''exec_9''] = Inr s'
        \<and> map status (objects s') = [COMPLETED]
        \<and> (\<forall>e \<in> set (objects s').
               current_step e \<le> total_steps e \<and> result e \<noteq> None \<and> end_time e \<noteq> None))
   \<and> all_well_formed agent_cap1
   \<and> (\<exists>s'. perform_all (env_const (99 / 100)) agent_cap1
           [Execute_single tc_unknown ''exec_1'', Cancel ''exec_1'', Cancel ''exec_1''] = Inr s'
        \<and> map status (objects s') = [CANCELLED]
        \<and> (\<forall>e \<in> set (objects s').
               current_step e \<le> total_steps e \<and> result e \<noteq> None \<and> end_time e \<noteq> None))"
proof -
  have w0: "all_well_formed Agent_init" by (simp add: all_well_formed_def Agent_init_def)
  have w1: "all_well_formed agent_cap1"
    by (simp add: all_well_formed_def agent_cap1_def Agent_init_def)
  obtain sa where a: "perform_all (env_const (99 / 100)) Agent_init
           [Execute_single tc_unknown ''exec_1'', Cancel ''exec_9''] = Inr sa
     \<and> map status (objects sa) = [COMPLETED]
     \<and> map result (objects sa) = [Some PASSED]
     \<and> map current_step (objects sa) = [6]"
    using invariant_example_run ..
  obtain sb where b: "perform_all (env_const (99 / 100)) agent_cap1
           [Execute_single tc_unknown ''exec_1'', Cancel ''exec_1'', Cancel ''exec_1''] = Inr sb
     \<and> map status (objects sb) = [CANCELLED]
     \<and> map result (objects sb) = [Some SKIPPED]
     \<and> execution_history sb = [0]"
    using invariant_example_cancel ..
  have ia: "\<forall>e \<in> set (objects sa).
               current_step e \<le> total_steps e \<and> result e \<noteq> None \<and> end_time e \<noteq> None"
  proof
    fix e assume e: "e \<in> set (objects sa)"
    then have "status e \<in> set (map status (objects sa))" by simp
    with a have "status e = COMPLETED" by simp
    with execution_invariant_observable[OF w0, of "env_const (99 / 100)"
        "[Execute_single tc_unknown ''exec_1'', Cancel ''exec_9'']"] a e
    show "current_step e \<le> total_steps e \<and> result e \<noteq> None \<and> end_time e \<noteq> None"
      by auto
  qed
  have ib: "\<forall>e \<in> set (objects sb).
               current_step e \<le> total_steps e \<and> result e \<noteq> None \<and> end_time e \<noteq> None"
  proof
    fix e assume e: "e \<in> set (objects sb)"
    then have "status e \<in> set (map status (objects sb))" by simp
    with b have "status e = CANCELLED" by simp
    with execution_invariant_observable[OF w1, of "env_const (99 / 100)"
        "[Execute_single tc_unknown ''exec_1'', Cancel ''exec_1'', Cancel ''exec_1'']"] b e
    show "current_step e \<le> total_steps e \<and> result e \<noteq> None \<and> end_time e \<noteq> None"
      by auto
  qed
  show ?thesis
    apply (intro conjI)
       apply (rule w0)
      apply (rule exI[of _ sa])
      apply (use a ia in simp)
     apply (rule w1)
    apply (rule exI[of _ sb])
    apply (use b ib in simp)
    done
qed

end
